theory Spec2Isabelle
  imports Main
begin

section \<open>The CXP client glue of the browser extension (app/backend/cxp.ts)\<close>

text \<open>
  The file under verification exists in two revisions that differ only in how the
  tcp branch of \<open>createMessageTransports\<close> obtains the base origin. The functions
  \<open>environmentFilter\<close>, \<open>createPlatformMessageTransports\<close> and \<open>applyDecoration\<close> are
  literally the same in both; definitions below follow the later revision, and the
  earlier tcp branch is kept as \<open>createMessageTransports_localhost\<close>.
\<close>

subsection \<open>Data model\<close>

text \<open>The merged settings of an extension are an opaque JSON value.\<close>

datatype json =
    JNull
  | JBool bool
  | JNumber int
  | JString string
  | JArray "json list"
  | JObject "(string \<times> json) list"

text \<open>
  A platform descriptor is tagged by its \<open>type\<close> string; the source dispatches on the
  string itself, so the tag stays a string and the other properties of the descriptor
  (url, address, image, ...) are carried along uninterpreted.
\<close>

record platform =
  type :: string
  properties :: "(string \<times> string) list"

text \<open>
  The value found under \<open>activationEvents\<close> of a manifest at run time. Manifests are
  parsed JSON supplied by the registry, and the filter itself tests the property for
  truthiness before use: \<open>EventsUndefined\<close> is a missing (falsy) property,
  \<open>EventsArray\<close> the declared shape, and \<open>EventsNotArray\<close> a truthy value that is not
  an array (for instance the JSON string "*"), on which calling \<open>.some\<close> raises a
  TypeError.
\<close>

datatype events = EventsUndefined | EventsArray "string list" | EventsNotArray

record sourcegraphExtension =
  activationEvents :: events
  platform :: platform

text \<open>
  Modelled from the spec: \<open>ErrorLike\<close> (app/backend/errors) is not among the
  sources. The spec has the manifest of an extension be an error value after a fetch or
  parse failure, with an inner message that the transport factory reports; the message
  is optional here, and a template literal renders a missing one as \<open>undefined\<close>.
\<close>

record errorLike =
  message :: "string option"

text \<open>
  \<open>manifest: SourcegraphExtension | null | ErrorLike\<close>. The three alternatives are
  told apart in the source by \<open>!manifest\<close> and \<open>isErrorLike(manifest)\<close>.
\<close>

datatype manifestValue =
    ManifestNull
  | ManifestError errorLike
  | Manifest sourcegraphExtension

text \<open>
  Modelled from the spec: \<open>isErrorLike\<close> (app/backend/errors) is not among the
  sources; it is the test for "the manifest is an error value".
\<close>

fun isErrorLike :: "manifestValue \<Rightarrow> bool" where
  "isErrorLike (ManifestError e) = True"
| "isErrorLike m = False"

record cxpExtensionWithManifest =
  id_ext :: string
  settings :: json
  isEnabled :: bool
  manifest :: manifestValue

record textDocumentItem =
  uri :: string
  languageId :: string

record component =
  document :: textDocumentItem

record environment =
  root :: "string option"
  component :: "component option"
  extensions :: "cxpExtensionWithManifest list option"

subsection \<open>Exceptions and the console\<close>

datatype exn = TypeError string

text \<open>The console is the only state the filter touches: \<open>console.error\<close> appends to it.\<close>

type_synonym console = "exn list"

subsection \<open>The activation filter\<close>

text \<open>The callback given to \<open>activationEvents.some\<close>.\<close>

definition eventMatches :: "component option \<Rightarrow> string \<Rightarrow> bool" where
  "eventMatches cpt e =
     (e = ''*'' \<or>
      (case cpt of
         None \<Rightarrow> False
       | Some c \<Rightarrow> e = ''onLanguage:'' @ languageId (document c)))"

text \<open>
  The body of the \<open>try\<close> block together with the trailing \<open>return false\<close>:
  \<open>Inr b\<close> is the value returned, \<open>Inl e\<close> an exception raised inside the block.
\<close>

definition tryBody :: "component option \<Rightarrow> cxpExtensionWithManifest \<Rightarrow> exn + bool" where
  "tryBody cpt x =
     (if isEnabled x \<and> manifest x \<noteq> ManifestNull \<and> \<not> isErrorLike (manifest x) then
        (case manifest x of
           Manifest m \<Rightarrow>
             (case activationEvents m of
                EventsUndefined \<Rightarrow> Inr False
              | EventsArray es \<Rightarrow> Inr (list_ex (eventMatches cpt) es)
              | EventsNotArray \<Rightarrow>
                  Inl (TypeError ''x.manifest.activationEvents.some is not a function''))
         | _ \<Rightarrow> Inr False)
      else Inr False)"

text \<open>
  The filter callback: \<open>try { ... } catch (err) { console.error(err) } return false\<close>.
  Its result is still typed as a possible exception, so that the array filter below
  can propagate one as \<open>Array.prototype.filter\<close> does.
\<close>

definition filterCallback ::
  "component option \<Rightarrow> cxpExtensionWithManifest \<Rightarrow> console \<Rightarrow> (exn + bool) \<times> console" where
  "filterCallback cpt x con =
     (case tryBody cpt x of
        Inl err \<Rightarrow> (Inr False, con @ [err])
      | Inr b \<Rightarrow> (Inr b, con))"

text \<open>
  \<open>Array.prototype.filter\<close> with a callback that has effects and may raise: elements
  are visited in order, and an exception of the callback ends the whole call.
\<close>

fun arrayFilter ::
  "('a \<Rightarrow> 's \<Rightarrow> (exn + bool) \<times> 's) \<Rightarrow> 'a list \<Rightarrow> 's \<Rightarrow> (exn + 'a list) \<times> 's" where
  "arrayFilter f [] s = (Inr [], s)"
| "arrayFilter f (x # xs) s =
     (case f x s of
        (Inl e, s') \<Rightarrow> (Inl e, s')
      | (Inr b, s') \<Rightarrow>
          (case arrayFilter f xs s' of
             (Inl e, s'') \<Rightarrow> (Inl e, s'')
           | (Inr ys, s'') \<Rightarrow> (Inr (if b then x # ys else ys), s'')))"

text \<open>
  \<open>{ ...nextEnvironment, extensions: nextEnvironment.extensions && nextEnvironment.extensions.filter(...) }\<close>.
  A null extension list stays null (an empty array is truthy and is filtered).
\<close>

definition environmentFilter ::
  "environment \<Rightarrow> console \<Rightarrow> (exn + environment) \<times> console" where
  "environmentFilter nextEnvironment con =
     (case extensions nextEnvironment of
        None \<Rightarrow> (Inr (nextEnvironment\<lparr>extensions := None\<rparr>), con)
      | Some xs \<Rightarrow>
          (case arrayFilter (filterCallback (component nextEnvironment)) xs con of
             (Inl e, con') \<Rightarrow> (Inl e, con')
           | (Inr ys, con') \<Rightarrow> (Inr (nextEnvironment\<lparr>extensions := Some ys\<rparr>), con')))"

text \<open>
  The callback returns true for an extension; the \<open>try\<close> block raises for it; and
  what the callbacks for a list of extensions write to the console.
\<close>

definition activates :: "component option \<Rightarrow> cxpExtensionWithManifest \<Rightarrow> bool" where
  "activates cpt x = (tryBody cpt x = Inr True)"

definition raises :: "component option \<Rightarrow> cxpExtensionWithManifest \<Rightarrow> bool" where
  "raises cpt x = (\<exists>e. tryBody cpt x = Inl e)"

definition logged :: "component option \<Rightarrow> cxpExtensionWithManifest list \<Rightarrow> console" where
  "logged cpt xs =
     concat (map (\<lambda>x. case tryBody cpt x of Inl e \<Rightarrow> [e] | Inr b \<Rightarrow> []) xs)"

subsection \<open>Strings the error messages are built from\<close>

text \<open>
  \<open>JSON.stringify\<close> on a string: the string in double quotes, with the quote, the
  backslash and the control characters escaped. Strings are byte strings here; bytes
  from 0x20 on, other than the quote and the backslash, are copied.
\<close>

definition hexDigit :: "nat \<Rightarrow> char" where
  "hexDigit n = ''0123456789abcdef'' ! (n mod 16)"

definition quoteChar :: "char \<Rightarrow> string" where
  "quoteChar c =
     (if c = CHR 0x22 then [CHR 0x5C, CHR 0x22]
      else if c = CHR 0x5C then [CHR 0x5C, CHR 0x5C]
      else if c = CHR 0x08 then [CHR 0x5C, CHR ''b'']
      else if c = CHR 0x0C then [CHR 0x5C, CHR ''f'']
      else if c = CHR 0x0A then [CHR 0x5C, CHR ''n'']
      else if c = CHR 0x0D then [CHR 0x5C, CHR ''r'']
      else if c = CHR 0x09 then [CHR 0x5C, CHR ''t'']
      else if (of_char c :: nat) < 0x20 then
        [CHR 0x5C, CHR ''u'', CHR ''0'', CHR ''0'',
         hexDigit (of_char c div 16), hexDigit (of_char c)]
      else [c])"

definition jsonStringify :: "string \<Rightarrow> string" where
  "jsonStringify s = CHR 0x22 # concat (map quoteChar s) @ [CHR 0x22]"

text \<open>A number in a template literal or in the host of a URL: its decimal digits.\<close>

fun decimal :: "nat \<Rightarrow> string" where
  "decimal n =
     (if n < 10 then [char_of (48 + n)]
      else decimal (n div 10) @ [char_of (48 + n mod 10)])"

declare decimal.simps [simp del]

text \<open>A template literal renders a missing property as \<open>undefined\<close>.\<close>

definition templateString :: "string option \<Rightarrow> string" where
  "templateString v = (case v of None \<Rightarrow> ''undefined'' | Some s \<Rightarrow> s)"

subsection \<open>URLs\<close>

text \<open>
  The \<open>URL\<close> object of the platform, as far as the source touches it: the components
  of a parsed URL. \<open>protocol\<close> is the scheme with its colon. \<open>port\<close> is \<open>None\<close> when
  the URL has no port or the port is the default of its scheme (the parser drops it).
  \<open>opaquePath\<close> holds for a URL such as \<open>mailto:x\<close> whose path is a single string.
  \<open>searchParams\<close> is the ordered list of name-value pairs of the query, and
  \<open>fragment\<close> is \<open>None\<close> when the URL has no \<open>#\<close>. The parser behind \<open>new URL(s)\<close> is
  a parameter of the functions below (\<open>None\<close> stands for the TypeError it raises on an
  invalid URL), and \<open>url.href\<close> is the serialisation of the record, so a socket is
  recorded with the record it was opened for.
\<close>

record url =
  protocol :: string
  username :: string
  password :: string
  hostname :: string
  port :: "nat option"
  pathname :: string
  opaquePath :: bool
  searchParams :: "(string \<times> string) list"
  fragment :: "string option"

text \<open>\<open>url.host\<close>: the host name, followed by the port when there is one.\<close>

definition host :: "url \<Rightarrow> string" where
  "host u = hostname u @ (case port u of None \<Rightarrow> [] | Some p \<Rightarrow> '':'' @ decimal p)"

text \<open>The special schemes of the URL standard and their default ports.\<close>

definition specialScheme :: "string \<Rightarrow> bool" where
  "specialScheme s =
     (s = ''ftp:'' \<or> s = ''file:'' \<or> s = ''http:'' \<or> s = ''https:'' \<or> s = ''ws:'' \<or> s = ''wss:'')"

definition defaultPort :: "string \<Rightarrow> nat option" where
  "defaultPort s =
     (if s = ''ftp:'' then Some 21
      else if s = ''http:'' \<or> s = ''ws:'' then Some 80
      else if s = ''https:'' \<or> s = ''wss:'' then Some 443
      else None)"

text \<open>
  The \<open>protocol\<close> setter, for a new scheme given with its colon. The assignment is
  ignored when it would turn a special scheme into one that is not special or the
  other way round, when the new scheme is \<open>file:\<close> and the URL has credentials or a
  port, and when the URL is a \<open>file:\<close> URL with an empty host. Otherwise the scheme is
  replaced, and a port that is the default port of the new scheme is dropped.
\<close>

definition setProtocol :: "string \<Rightarrow> url \<Rightarrow> url" where
  "setProtocol s u =
     (if specialScheme (protocol u) \<noteq> specialScheme s then u
      else if s = ''file:'' \<and> (username u \<noteq> [] \<or> password u \<noteq> [] \<or> port u \<noteq> None) then u
      else if protocol u = ''file:'' \<and> hostname u = [] then u
      else if port u = defaultPort s then u\<lparr>protocol := s, port := None\<rparr>
      else u\<lparr>protocol := s\<rparr>)"

text \<open>
  The \<open>pathname\<close> setter, for a path of plain segments such as the one the source
  assigns: it is ignored when the URL has an opaque path; otherwise the stored path is
  the given one, with a leading slash.
\<close>

definition setPathname :: "string \<Rightarrow> url \<Rightarrow> url" where
  "setPathname p u =
     (if opaquePath u then u
      else u\<lparr>pathname := (case p of [] \<Rightarrow> ''/'' | c # cs \<Rightarrow> if c = CHR ''/'' then p else CHR ''/'' # p)\<rparr>)"

text \<open>
  \<open>URLSearchParams.set\<close>: the first pair of that name gets the value and the other
  pairs of that name are removed; without such a pair, one is appended.
\<close>

fun searchParamsSet :: "string \<Rightarrow> string \<Rightarrow> (string \<times> string) list \<Rightarrow> (string \<times> string) list" where
  "searchParamsSet name v [] = [(name, v)]"
| "searchParamsSet name v (p # ps) =
     (if fst p = name then (name, v) # filter (\<lambda>q. fst q \<noteq> name) ps
      else p # searchParamsSet name v ps)"

record clientOptions =
  root_options :: "string option"

text \<open>\<open>options.root || ''\<close>: a null root and an empty root both give the empty string.\<close>

definition rootOrEmpty :: "clientOptions \<Rightarrow> string" where
  "rootOrEmpty options = (case root_options options of None \<Rightarrow> [] | Some r \<Rightarrow> r)"

text \<open>
  The body of the tcp branch from \<open>new URL\<close> on, applied to the parsed base origin:
  \<open>wss:\<close> or \<open>ws:\<close> is assigned to the protocol, \<open>.api/lsp\<close> to the path name, and
  \<open>mode\<close> and \<open>rootUri\<close> are set.
\<close>

definition lspProxyURL :: "url \<Rightarrow> string \<Rightarrow> clientOptions \<Rightarrow> url" where
  "lspProxyURL base ident options =
     (let u1 = setProtocol (if protocol base = ''https:'' then ''wss:'' else ''ws:'') base;
          u2 = setPathname ''.api/lsp'' u1;
          u3 = u2\<lparr>searchParams := searchParamsSet ''mode'' ident (searchParams u2)\<rparr>;
          u4 = u3\<lparr>searchParams := searchParamsSet ''rootUri'' (rootOrEmpty options) (searchParams u3)\<rparr>
      in u4)"

text \<open>
  Whether the protocol assignment of the tcp branch takes effect on a base origin: its
  scheme is special and it is not a \<open>file:\<close> URL with an empty host.
\<close>

definition switchable :: "url \<Rightarrow> bool" where
  "switchable base =
     (specialScheme (protocol base) \<and> \<not> (protocol base = ''file:'' \<and> hostname base = []))"

subsection \<open>Ports, sockets and promises\<close>

text \<open>
  The resources the transport code opens and the promises it hands out, as one state.
  \<open>ports\<close> lists the names given to \<open>chrome.runtime.connect\<close>, in call order; the
  position of a name is the handle of that port. \<open>posted\<close> lists the \<open>postMessage\<close>
  calls with the handle of the port they went to. \<open>sockets\<close> lists the URLs given to
  \<open>new WebSocket\<close>. \<open>origin\<close> is the value of the promise taken from
  \<open>sourcegraphURLSubject\<close> once that promise has resolved. A promise is known by its
  position in \<open>promises\<close>.
\<close>

text \<open>
  Modelled from the spec: \<open>createPortMessageTransports\<close> (app/backend/PortMessageTransports)
  is not among the sources, nor is \<open>createWebSocketMessageTransports\<close> of the CXP
  library; the spec has each wrap a channel as the transport. \<open>PortTransports h\<close> is
  the transport over the port with handle \<open>h\<close>, \<open>WebSocketTransports k\<close> the one over
  the \<open>k\<close>-th socket opened.
\<close>

datatype transports = PortTransports nat | WebSocketTransports nat

datatype settlement = Pending | Resolved transports | Rejected string

text \<open>
  What a promise waits for: a message on the control port (the listener added by
  \<open>createPlatformMessageTransports\<close>, which is never removed), the base origin (the
  \<open>then\<close> callback of the tcp branch, with the extension id and options it closes over),
  or nothing.
\<close>

datatype waiting = ControlListener | OriginSubscriber string clientOptions | Nothing

record promise =
  waitsOn :: waiting
  state :: settlement

record world =
  ports :: "string list"
  posted :: "(nat \<times> string \<times> platform) list"
  sockets :: "url list"
  origin :: "string option"
  promises :: "promise list"

definition emptyWorld :: world where
  "emptyWorld = \<lparr>ports = [], posted = [], sockets = [], origin = None, promises = []\<rparr>"

text \<open>\<open>chrome.runtime.connect({ name })\<close> opens a port and returns its handle.\<close>

definition connect :: "string \<Rightarrow> world \<Rightarrow> nat \<times> world" where
  "connect name w = (length (ports w), w\<lparr>ports := ports w @ [name]\<rparr>)"

text \<open>\<open>resolve\<close> and \<open>reject\<close> of a promise: only a pending promise changes.\<close>

definition settle :: "nat \<Rightarrow> settlement \<Rightarrow> world \<Rightarrow> world" where
  "settle i v w =
     (if i < length (promises w) \<and> state (promises w ! i) = Pending
      then w\<lparr>promises := (promises w)[i := (promises w ! i)\<lparr>state := v\<rparr>]\<rparr>
      else w)"

definition newPromise :: "waiting \<Rightarrow> settlement \<Rightarrow> world \<Rightarrow> nat \<times> world" where
  "newPromise k v w =
     (length (promises w), w\<lparr>promises := promises w @ [\<lparr>waitsOn = k, state = v\<rparr>]\<rparr>)"

subsection \<open>The relay: createPlatformMessageTransports\<close>

text \<open>
  The immediately-invoked function runs when the module is loaded: it opens the port
  named CONTROL and returns the closure that holds its handle.
\<close>

definition moduleLoad :: "nat \<times> world" where
  "moduleLoad = connect ''CONTROL'' emptyWorld"

text \<open>
  The closure, with the handle it holds as first argument: it posts the request on the
  control port, adds a listener to that port and returns the new promise.
\<close>

definition createPlatformMessageTransports ::
  "nat \<Rightarrow> string \<Rightarrow> platform \<Rightarrow> world \<Rightarrow> nat \<times> world" where
  "createPlatformMessageTransports CONTROL ident plat w =
     newPromise ControlListener Pending (w\<lparr>posted := posted w @ [(CONTROL, ident, plat)]\<rparr>)"

text \<open>An inbound message on the control port: \<open>{ portName } | { error }\<close>.\<close>

datatype response = PortName string | ErrorResponse string

text \<open>
  The listener of promise \<open>i\<close>. On a port name it connects to that port and resolves
  with the transports over it; the connect is an argument of \<open>resolve\<close> and so happens
  whether or not the promise is still pending.
\<close>

fun listener :: "response \<Rightarrow> nat \<Rightarrow> world \<Rightarrow> world" where
  "listener (ErrorResponse err) i w = settle i (Rejected err) w"
| "listener (PortName name) i w =
     (case connect name w of (h, w') \<Rightarrow> settle i (Resolved (PortTransports h)) w')"

text \<open>What a listener settles its promise with; \<open>h\<close> is the handle of the port it opened.\<close>

definition outcome :: "response \<Rightarrow> nat \<Rightarrow> settlement" where
  "outcome r h = (case r of PortName name \<Rightarrow> Resolved (PortTransports h) | ErrorResponse err \<Rightarrow> Rejected err)"

definition controlListeners :: "world \<Rightarrow> nat list" where
  "controlListeners w =
     filter (\<lambda>i. waitsOn (promises w ! i) = ControlListener) [0..<length (promises w)]"

text \<open>A message arrives on the control port: every listener runs, in the order added.\<close>

definition onControlMessage :: "response \<Rightarrow> world \<Rightarrow> world" where
  "onControlMessage r w = fold (listener r) (controlListeners w) w"

subsection \<open>The transport factory: createMessageTransports\<close>

text \<open>
  \<open>new WebSocket(url.href)\<close>: the constructor throws a SyntaxError when the scheme of
  the URL is not \<open>ws\<close> or \<open>wss\<close> or when the URL has a fragment, and opens no socket
  then; otherwise the socket is opened and its handle is its position in \<open>sockets\<close>.
  (Constructors that also take \<open>http\<close> and \<open>https\<close> make no difference here: the URL
  of the tcp branch has been through the protocol assignment, after which a special
  scheme is \<open>ws\<close>, \<open>wss\<close> or the \<open>file\<close> of a URL without a host.)
\<close>

definition webSocketAccepts :: "url \<Rightarrow> bool" where
  "webSocketAccepts u = ((protocol u = ''ws:'' \<or> protocol u = ''wss:'') \<and> fragment u = None)"

definition newWebSocket :: "url \<Rightarrow> world \<Rightarrow> (string + nat) \<times> world" where
  "newWebSocket u w =
     (if webSocketAccepts u then (Inr (length (sockets w)), w\<lparr>sockets := sockets w @ [u]\<rparr>)
      else (Inl ''SyntaxError: Failed to construct WebSocket'', w))"

text \<open>
  The \<open>then\<close> callback of the tcp branch for promise \<open>i\<close>, run with the base origin:
  it parses the origin, builds the bridge URL, constructs a WebSocket for it and
  resolves with the transports over it. An origin that does not parse makes \<open>new URL\<close>
  raise, and a URL that the WebSocket constructor refuses makes that raise; either
  rejects the promise.
\<close>

definition thenOrigin ::
  "(string \<Rightarrow> url option) \<Rightarrow> string \<Rightarrow> string \<Rightarrow> clientOptions \<Rightarrow> nat \<Rightarrow> world \<Rightarrow> world" where
  "thenOrigin parseURL urlString ident options i w =
     (case parseURL urlString of
        None \<Rightarrow> settle i (Rejected ''TypeError: Invalid URL'') w
      | Some base \<Rightarrow>
          (case newWebSocket (lspProxyURL base ident options) w of
             (Inl err, w') \<Rightarrow> settle i (Rejected err) w'
           | (Inr k, w') \<Rightarrow> settle i (Resolved (WebSocketTransports k)) w'))"

text \<open>
  Modelled from the spec: \<open>sourcegraphURLSubject\<close> (app/util/context) is not among the
  sources; the spec calls it the currently-configured base origin, reactively sourced,
  which may not be known when the factory is called, in which case the factory awaits
  it. \<open>origin w\<close> is the value of \<open>from(sourcegraphURLSubject).toPromise()\<close> when that
  promise has resolved, and \<open>None\<close> before; when the promise resolves is decided by the
  subject (the promise of an observable resolves with its last value when it completes).
\<close>

definition awaitOrigin ::
  "(string \<Rightarrow> url option) \<Rightarrow> string \<Rightarrow> clientOptions \<Rightarrow> world \<Rightarrow> nat \<times> world" where
  "awaitOrigin parseURL ident options w =
     (case newPromise (OriginSubscriber ident options) Pending w of
        (i, w') \<Rightarrow>
          (i, case origin w' of
                None \<Rightarrow> w'
              | Some urlString \<Rightarrow> thenOrigin parseURL urlString ident options i w'))"

text \<open>
  The factory. \<open>Inl\<close> is an Error thrown by the call, \<open>Inr i\<close> the promise returned.
  \<open>CONTROL\<close> is the handle held by the closure \<open>createPlatformMessageTransports\<close>.
\<close>

definition createMessageTransports ::
  "(string \<Rightarrow> url option) \<Rightarrow> nat \<Rightarrow> cxpExtensionWithManifest \<Rightarrow> clientOptions \<Rightarrow> world
     \<Rightarrow> (string + nat) \<times> world" where
  "createMessageTransports parseURL CONTROL extension options w =
     (case manifest extension of
        ManifestNull \<Rightarrow>
          (Inl (''unable to connect to extension '' @ jsonStringify (id_ext extension) @
                '': no manifest found''), w)
      | ManifestError e \<Rightarrow>
          (Inl (''unable to connect to extension '' @ jsonStringify (id_ext extension) @
                '': invalid manifest: '' @ templateString (message e)), w)
      | Manifest m \<Rightarrow>
          if type (platform m) = ''websocket'' then
            (case createPlatformMessageTransports CONTROL (id_ext extension) (platform m) w of
               (i, w') \<Rightarrow> (Inr i, w'))
          else if type (platform m) = ''tcp'' then
            (case awaitOrigin parseURL (id_ext extension) options w of
               (i, w') \<Rightarrow> (Inr i, w'))
          else if type (platform m) = ''bundle'' then
            (case createPlatformMessageTransports CONTROL (id_ext extension) (platform m) w of
               (i, w') \<Rightarrow> (Inr i, w'))
          else
            (case newPromise Nothing
                    (Rejected (''Unable to connect to CXP extension '' @
                       jsonStringify (id_ext extension) @ '': type '' @
                       jsonStringify (type (platform m)) @ '' is not supported'')) w of
               (i, w') \<Rightarrow> (Inr i, w')))"

text \<open>
  The tcp branch of the earlier revision: the base origin is the constant
  \<open>http://localhost:3080\<close> and the socket is constructed during the call. The other
  branches are those of \<open>createMessageTransports\<close>.
\<close>

definition localhost3080 :: url where
  "localhost3080 =
     \<lparr>protocol = ''http:'', username = [], password = [], hostname = ''localhost'',
      port = Some 3080, pathname = ''/'', opaquePath = False, searchParams = [], fragment = None\<rparr>"

definition createMessageTransports_localhost ::
  "nat \<Rightarrow> cxpExtensionWithManifest \<Rightarrow> clientOptions \<Rightarrow> world \<Rightarrow> (string + nat) \<times> world" where
  "createMessageTransports_localhost CONTROL extension options w =
     (case manifest extension of
        Manifest m \<Rightarrow>
          if type (platform m) = ''tcp'' then
            (case newWebSocket (lspProxyURL localhost3080 (id_ext extension) options) w of
               (Inl err, w') \<Rightarrow> (Inl err, w')
             | (Inr k, w') \<Rightarrow>
                 (case newPromise Nothing (Resolved (WebSocketTransports k)) w' of
                    (i, w'') \<Rightarrow> (Inr i, w'')))
          else createMessageTransports (\<lambda>s. None) CONTROL extension options w
      | _ \<Rightarrow> createMessageTransports (\<lambda>s. None) CONTROL extension options w)"

subsection \<open>Runs of the transport code\<close>

text \<open>
  What happens after the module is loaded: calls of the factory (an Error thrown by a
  call goes to the caller and leaves the state as it is), messages arriving on the
  control port, and the promise for the base origin resolving, which runs the pending
  \<open>then\<close> callbacks in the order they were added.
\<close>

datatype event =
    Call cxpExtensionWithManifest clientOptions
  | ControlMessage response
  | OriginResolved string

definition originSubscribers :: "world \<Rightarrow> (nat \<times> string \<times> clientOptions) list" where
  "originSubscribers w =
     concat (map (\<lambda>i. case waitsOn (promises w ! i) of
                         OriginSubscriber ident options \<Rightarrow>
                           if state (promises w ! i) = Pending then [(i, ident, options)] else []
                       | _ \<Rightarrow> [])
               [0..<length (promises w)])"

text \<open>The socket a \<open>then\<close> callback opens and what it settles its promise with.\<close>

definition bridged :: "(string \<Rightarrow> url option) \<Rightarrow> string \<Rightarrow> string \<Rightarrow> clientOptions \<Rightarrow> url list" where
  "bridged parseURL urlString ident options =
     (case parseURL urlString of
        None \<Rightarrow> []
      | Some base \<Rightarrow>
          if webSocketAccepts (lspProxyURL base ident options)
          then [lspProxyURL base ident options] else [])"

definition originOutcome ::
  "(string \<Rightarrow> url option) \<Rightarrow> string \<Rightarrow> string \<Rightarrow> clientOptions \<Rightarrow> nat \<Rightarrow> settlement" where
  "originOutcome parseURL urlString ident options k =
     (case parseURL urlString of
        None \<Rightarrow> Rejected ''TypeError: Invalid URL''
      | Some base \<Rightarrow>
          if webSocketAccepts (lspProxyURL base ident options)
          then Resolved (WebSocketTransports k)
          else Rejected ''SyntaxError: Failed to construct WebSocket'')"

abbreviation thenOrigins :: "(string \<Rightarrow> url option) \<Rightarrow> string \<Rightarrow> (nat \<times> string \<times> clientOptions) list \<Rightarrow> world \<Rightarrow> world" where
  "thenOrigins P s L w \<equiv> fold (\<lambda>(i, ident, options). thenOrigin P s ident options i) L w"

definition onOriginResolved :: "(string \<Rightarrow> url option) \<Rightarrow> string \<Rightarrow> world \<Rightarrow> world" where
  "onOriginResolved parseURL urlString w =
     (case origin w of
        Some u \<Rightarrow> w
      | None \<Rightarrow>
          fold (\<lambda>(i, ident, options). thenOrigin parseURL urlString ident options i)
            (originSubscribers w) (w\<lparr>origin := Some urlString\<rparr>))"

fun step :: "(string \<Rightarrow> url option) \<Rightarrow> nat \<Rightarrow> event \<Rightarrow> world \<Rightarrow> world" where
  "step parseURL CONTROL (Call extension options) w =
     snd (createMessageTransports parseURL CONTROL extension options w)"
| "step parseURL CONTROL (ControlMessage r) w = onControlMessage r w"
| "step parseURL CONTROL (OriginResolved urlString) w = onOriginResolved parseURL urlString w"

definition run :: "(string \<Rightarrow> url option) \<Rightarrow> event list \<Rightarrow> world" where
  "run parseURL evs = fold (step parseURL (fst moduleLoad)) evs (snd moduleLoad)"

text \<open>
  The promises that the arrival of a response settles: those pending before it and
  not pending after it.
\<close>

definition settledBy :: "response \<Rightarrow> world \<Rightarrow> nat list" where
  "settledBy r w =
     filter (\<lambda>i. state (promises w ! i) = Pending \<and>
                 state (promises (onControlMessage r w) ! i) \<noteq> Pending)
       [0..<length (promises w)]"

text \<open>
  The requests that the websocket and bundle calls of a run post, in order, each with
  the handle of the port it is posted on.
\<close>

definition relayRequests :: "nat \<Rightarrow> event list \<Rightarrow> (nat \<times> string \<times> platform) list" where
  "relayRequests CONTROL evs =
     concat (map (\<lambda>ev. case ev of
                          Call extension options \<Rightarrow>
                            (case manifest extension of
                               Manifest m \<Rightarrow>
                                 if type (platform m) = ''websocket'' \<or> type (platform m) = ''bundle''
                                 then [(CONTROL, id_ext extension, platform m)] else []
                             | _ \<Rightarrow> [])
                        | _ \<Rightarrow> []) evs)"

subsection \<open>The DOM of the hosted page\<close>

text \<open>
  A node of the page is an element (tag name, attributes in order, child nodes) or a
  text node. The inline style of an element is its \<open>style\<close> attribute, an attribute
  like the others: an element without inline style has no such attribute, which is not
  the same as having the attribute with an empty value. Two subtrees are deep-equal
  when they are the same value of this type. A node is addressed by its path from the
  host element: the list of child indices.
\<close>

datatype node =
    Element string "(string \<times> string) list" "node list"
  | Text string

type_synonym path = "nat list"

fun nodeAt :: "node \<Rightarrow> path \<Rightarrow> node option" where
  "nodeAt n [] = Some n"
| "nodeAt (Element t a cs) (i # p) = (if i < length cs then nodeAt (cs ! i) p else None)"
| "nodeAt (Text s) (i # p) = None"

text \<open>A mutation of the node at a path; a path that leads nowhere changes nothing.\<close>

fun updateAt :: "path \<Rightarrow> (node \<Rightarrow> node) \<Rightarrow> node \<Rightarrow> node" where
  "updateAt [] f n = f n"
| "updateAt (i # p) f (Element t a cs) =
     (if i < length cs then Element t a (cs[i := updateAt p f (cs ! i)])
      else Element t a cs)"
| "updateAt (i # p) f (Text s) = Text s"

text \<open>The descendants of a node in document order, each with its path.\<close>

fun descendants :: "node \<Rightarrow> (path \<times> node) list"
  and descendantsFrom :: "nat \<Rightarrow> node list \<Rightarrow> (path \<times> node) list" where
  "descendants (Text s) = []"
| "descendants (Element t a cs) = descendantsFrom 0 cs"
| "descendantsFrom i [] = []"
| "descendantsFrom i (n # ns) =
     ([i], n) # map (\<lambda>(p, m). (i # p, m)) (descendants n) @ descendantsFrom (Suc i) ns"

fun isElement :: "node \<Rightarrow> bool" where
  "isElement (Element t a cs) = True"
| "isElement (Text s) = False"

text \<open>
  \<open>fileElement.querySelectorAll(`td[data-line-number="${ghLineNumber}"]`)\<close>: the
  descendant \<open>td\<close> elements whose \<open>data-line-number\<close> attribute is the given string.
\<close>

fun matchesSelector :: "string \<Rightarrow> node \<Rightarrow> bool" where
  "matchesSelector n (Element t a cs) = (t = ''td'' \<and> map_of a ''data-line-number'' = Some n)"
| "matchesSelector n (Text s) = False"

definition querySelectorAll :: "node \<Rightarrow> string \<Rightarrow> (path \<times> node) list" where
  "querySelectorAll fileElement n = filter (\<lambda>(p, e). matchesSelector n e) (descendants fileElement)"

text \<open>\<open>nextElementSibling\<close> of the node at a path: the next sibling that is an element.\<close>

definition nextElementSibling :: "node \<Rightarrow> path \<Rightarrow> path option" where
  "nextElementSibling fileElement p =
     (if p = [] then None
      else (case nodeAt fileElement (butlast p) of
              Some (Element t a cs) \<Rightarrow>
                (case filter (\<lambda>j. isElement (cs ! j)) [Suc (last p)..<length cs] of
                   [] \<Rightarrow> None
                 | j # js \<Rightarrow> Some (butlast p @ [j]))
            | _ \<Rightarrow> None))"

fun appendChild :: "node \<Rightarrow> node \<Rightarrow> node" where
  "appendChild x (Element t a cs) = Element t a (cs @ [x])"
| "appendChild x (Text s) = Text s"

fun removeChild :: "nat \<Rightarrow> node \<Rightarrow> node" where
  "removeChild k (Element t a cs) = Element t a (take k cs @ drop (Suc k) cs)"
| "removeChild k (Text s) = Text s"

definition childCount :: "node \<Rightarrow> path \<Rightarrow> nat" where
  "childCount fileElement p =
     (case nodeAt fileElement p of Some (Element t a cs) \<Rightarrow> length cs | _ \<Rightarrow> 0)"

text \<open>\<open>element.setAttribute\<close>: an attribute that is there gets the value, a new one is added last.\<close>

fun setAttribute :: "string \<Rightarrow> string \<Rightarrow> (string \<times> string) list \<Rightarrow> (string \<times> string) list" where
  "setAttribute name v [] = [(name, v)]"
| "setAttribute name v (p # ps) =
     (if fst p = name then (name, v) # ps else p # setAttribute name v ps)"

text \<open>\<open>element.textContent = s\<close>: the children become one text node, or none for the empty string.\<close>

fun setTextContent :: "string \<Rightarrow> node \<Rightarrow> node" where
  "setTextContent s (Element t a cs) = Element t a (if s = [] then [] else [Text s])"
| "setTextContent s (Text x) = Text s"

text \<open>
  The style object of the platform is a parameter: for a property name, the value
  assigned (the empty string also stands for \<open>null\<close>; both remove the property) and the
  \<open>style\<close> attribute of the element before the assignment (\<open>None\<close> when the element
  has none), it gives the \<open>style\<close> attribute after the assignment. Parsing the value,
  dropping one that is not valid, and writing the declarations back to the attribute
  are all inside it.
\<close>

type_synonym css = "string \<Rightarrow> string \<Rightarrow> string option \<Rightarrow> string option"

text \<open>\<open>element.style.<property> = v\<close>: only the \<open>style\<close> attribute of the element can change.\<close>

fun assignStyle :: "css \<Rightarrow> string \<Rightarrow> string \<Rightarrow> node \<Rightarrow> node" where
  "assignStyle css property v (Element t a cs) =
     (case css property v (map_of a ''style'') of
        None \<Rightarrow> Element t (filter (\<lambda>p. fst p \<noteq> ''style'') a) cs
      | Some s \<Rightarrow> Element t (setAttribute ''style'' s a) cs)"
| "assignStyle css property v (Text s) = Text s"

subsection \<open>Decorations\<close>

text \<open>
  A decoration, as far as \<open>applyDecoration\<close> reads it: \<open>startLine\<close> is
  \<open>decoration.range.start.line\<close>, a natural number; the optional properties are
  options.
\<close>

record attachment =
  backgroundColor_after :: "string option"
  color_after :: "string option"
  contentText :: "string option"
  linkURL :: "string option"

record textDocumentDecoration =
  startLine :: nat
  backgroundColor :: "string option"
  after :: "attachment option"

text \<open>A string property is truthy when it is present and not empty.\<close>

definition truthy :: "string option \<Rightarrow> bool" where
  "truthy v = (case v of None \<Rightarrow> False | Some s \<Rightarrow> s \<noteq> [])"

text \<open>\<open>v || null\<close> assigned to a style property or to \<open>textContent\<close>.\<close>

definition orNull :: "string option \<Rightarrow> string" where
  "orNull v = (case v of None \<Rightarrow> [] | Some s \<Rightarrow> s)"

text \<open>
  The annotation built for \<open>decoration.after\<close>: a \<open>span\<close> that gets its background
  colour and then its text, put into a link (which gets its \<open>href\<close> and then its
  colour) when a link URL is given.
\<close>

definition annotationFor :: "css \<Rightarrow> attachment \<Rightarrow> node" where
  "annotationFor css a =
     (let span = setTextContent (orNull (contentText a))
                   (assignStyle css ''background-color'' (orNull (backgroundColor_after a))
                      (Element ''span'' [] []))
      in if truthy (linkURL a)
         then appendChild span
                (assignStyle css ''color'' (orNull (color_after a))
                   (Element ''a'' [(''href'', orNull (linkURL a))] []))
         else span)"

text \<open>
  The closures pushed on \<open>disposables\<close>. Each holds the node it acts on: the line
  element by its path, the annotation by the path of the line element and the position
  it was appended at. This names the same nodes as the closures do as long as the host
  subtree is the one that \<open>applyDecoration\<close> left, which is where the disposables are
  run below.
\<close>

datatype disposable = ResetBackground path | RemoveAnnotation path nat

fun dispose :: "css \<Rightarrow> disposable \<Rightarrow> node \<Rightarrow> node" where
  "dispose css (ResetBackground p) fileElement =
     updateAt p (assignStyle css ''background-color'' []) fileElement"
| "dispose css (RemoveAnnotation p k) fileElement = updateAt p (removeChild k) fileElement"

text \<open>\<open>mergeDisposables(...disposables).dispose()\<close>: each is disposed, in order.\<close>

definition mergeDisposables :: "css \<Rightarrow> disposable list \<Rightarrow> node \<Rightarrow> node" where
  "mergeDisposables css disposables fileElement = fold (dispose css) disposables fileElement"

text \<open>
  The first half of \<open>applyDecoration\<close>: the search for the line element. The node list
  returned by \<open>querySelectorAll\<close> is an object, so the test \<open>!lineNumberElements\<close> never
  holds and its "not found" error is never thrown; with exactly one match the first
  entry is that match, so the test \<open>!lineNumberElement\<close> never holds either.
\<close>

definition findLineElement :: "node \<Rightarrow> textDocumentDecoration \<Rightarrow> string + path" where
  "findLineElement fileElement decoration =
     (let ghLineNumber = startLine decoration + 1;
          lineNumberElements = querySelectorAll fileElement (decimal ghLineNumber)
      in if length lineNumberElements \<noteq> 1 then
           Inl (''Line number '' @ decimal ghLineNumber @ '' matched '' @
                decimal (length lineNumberElements) @ '' elements (expected 1)'')
         else
           (case nextElementSibling fileElement (fst (hd lineNumberElements)) of
              None \<Rightarrow>
                Inl (''Line '' @ decimal ghLineNumber @ '' is falsy: [object HTMLTableCellElement]'')
            | Some lineElement \<Rightarrow> Inr lineElement))"

text \<open>
  \<open>applyDecoration\<close>: the error thrown or the disposables returned, and the host
  subtree after the call.
\<close>

definition applyDecoration ::
  "css \<Rightarrow> node \<Rightarrow> textDocumentDecoration \<Rightarrow> (string + disposable list) \<times> node" where
  "applyDecoration css fileElement decoration =
     (case findLineElement fileElement decoration of
        Inl err \<Rightarrow> (Inl err, fileElement)
      | Inr lineElement \<Rightarrow>
          (let (d1, e1) =
                 (if truthy (backgroundColor decoration)
                  then ([ResetBackground lineElement],
                        updateAt lineElement
                          (assignStyle css ''background-color'' (orNull (backgroundColor decoration)))
                          fileElement)
                  else ([], fileElement));
               (d2, e2) =
                 (case after decoration of
                    None \<Rightarrow> ([], e1)
                  | Some a \<Rightarrow>
                      ([RemoveAnnotation lineElement (childCount e1 lineElement)],
                       updateAt lineElement (appendChild (annotationFor css a)) e1))
           in (Inr (d1 @ d2), e2)))"

text \<open>
  The host subtree in which the background colour of the node at a path has been
  assigned and then assigned \<open>null\<close>.
\<close>

definition backgroundAssignedAndCleared :: "css \<Rightarrow> string \<Rightarrow> node \<Rightarrow> path \<Rightarrow> node" where
  "backgroundAssignedAndCleared css v fileElement lineElement =
     updateAt lineElement
       (\<lambda>e. assignStyle css ''background-color'' [] (assignStyle css ''background-color'' v e))
       fileElement"

subsection \<open>Example data\<close>

text \<open>
  Extensions: the one of the end-to-end scenario (websocket, wildcard), a Go language
  server (tcp, \<open>onLanguage:go\<close>), one whose manifest has a string under
  \<open>activationEvents\<close>, one without a manifest, one with an error for a manifest, one of
  an unsupported platform kind, and a bundle.
\<close>

definition extX :: cxpExtensionWithManifest where
  "extX = \<lparr>id_ext = ''x'', settings = JObject [], isEnabled = True,
     manifest = Manifest \<lparr>activationEvents = EventsArray [''*''],
       platform = \<lparr>type = ''websocket'', properties = [(''url'', ''wss://h/x'')]\<rparr>\<rparr>\<rparr>"

definition extGo :: cxpExtensionWithManifest where
  "extGo = \<lparr>id_ext = ''langserver/go'', settings = JObject [], isEnabled = True,
     manifest = Manifest \<lparr>activationEvents = EventsArray [''onLanguage:go''],
       platform = \<lparr>type = ''tcp'', properties = [(''address'', ''tcp://go:4389'')]\<rparr>\<rparr>\<rparr>"

definition extBroken :: cxpExtensionWithManifest where
  "extBroken = \<lparr>id_ext = ''broken'', settings = JNull, isEnabled = True,
     manifest = Manifest \<lparr>activationEvents = EventsNotArray,
       platform = \<lparr>type = ''bundle'', properties = [(''url'', ''https://h/b.js'')]\<rparr>\<rparr>\<rparr>"

definition extNoManifest :: cxpExtensionWithManifest where
  "extNoManifest = \<lparr>id_ext = ''none'', settings = JNull, isEnabled = True, manifest = ManifestNull\<rparr>"

definition extBadManifest :: cxpExtensionWithManifest where
  "extBadManifest = \<lparr>id_ext = ''bad'', settings = JNull, isEnabled = True,
     manifest = ManifestError \<lparr>message = Some ''404 Not Found''\<rparr>\<rparr>"

definition extPigeon :: cxpExtensionWithManifest where
  "extPigeon = \<lparr>id_ext = ''pigeon'', settings = JNull, isEnabled = True,
     manifest = Manifest \<lparr>activationEvents = EventsArray [''*''],
       platform = \<lparr>type = ''carrierpigeon'', properties = []\<rparr>\<rparr>\<rparr>"

definition extBundle :: cxpExtensionWithManifest where
  "extBundle = \<lparr>id_ext = ''bundled'', settings = JNull, isEnabled = True,
     manifest = Manifest \<lparr>activationEvents = EventsArray [''*''],
       platform = \<lparr>type = ''bundle'', properties = [(''url'', ''https://h/bundled.js'')]\<rparr>\<rparr>\<rparr>"

text \<open>
  A snapshot with a Go file open, connection options, and two base origins as the parser
  returns them: one of scheme \<open>https\<close>, one of a scheme that is not special.
\<close>

definition envGo :: environment where
  "envGo = \<lparr>root = Some ''git://github.com/gorilla/mux'',
     component = Some \<lparr>document = \<lparr>uri = ''git://github.com/gorilla/mux#mux.go'', languageId = ''go''\<rparr>\<rparr>,
     extensions = Some [extX, extBroken, extGo]\<rparr>"

definition optionsMux :: clientOptions where
  "optionsMux = \<lparr>root_options = Some ''git://github.com/gorilla/mux''\<rparr>"

definition sourcegraphCom :: url where
  "sourcegraphCom =
     \<lparr>protocol = ''https:'', username = [], password = [], hostname = ''sourcegraph.com'',
      port = None, pathname = ''/'', opaquePath = False, searchParams = [], fragment = None\<rparr>"

definition exampleFoo :: url where
  "exampleFoo =
     \<lparr>protocol = ''foo:'', username = [], password = [], hostname = ''example.com'',
      port = None, pathname = ''/'', opaquePath = False, searchParams = [], fragment = None\<rparr>"

definition parseExample :: "string \<Rightarrow> url option" where
  "parseExample s =
     (if s = ''https://sourcegraph.com'' then Some sourcegraphCom
      else if s = ''foo://example.com/'' then Some exampleFoo
      else None)"

text \<open>
  Host subtrees in the shape of a blob view (a line-number cell followed by the code
  cell): one whose code cell has a red inline background, one whose code cell has no
  inline style, and one with two cells claiming line 1; a decoration for the first
  line; and what the style object of a browser does for the assignments that applying
  and disposing this decoration makes on these subtrees (other assignments are left
  without effect here).
\<close>

definition lineCell :: "string \<Rightarrow> node" where
  "lineCell n = Element ''td'' [(''data-line-number'', n)] []"

definition hostRed :: node where
  "hostRed = Element ''table'' []
     [Element ''tr'' []
        [lineCell ''1'',
         Element ''td'' [(''class'', ''blob-code''), (''style'', ''background-color: red;'')]
           [Text ''package mux'']]]"

definition hostPlain :: node where
  "hostPlain = Element ''table'' []
     [Element ''tr'' []
        [lineCell ''1'', Element ''td'' [(''class'', ''blob-code'')] [Text ''package mux'']]]"

definition hostTwice :: node where
  "hostTwice = Element ''table'' []
     [Element ''tr'' [] [lineCell ''1'', Element ''td'' [] [Text ''a'']],
      Element ''tr'' [] [lineCell ''1'', Element ''td'' [] [Text ''b'']]]"

definition decoYellow :: textDocumentDecoration where
  "decoYellow = \<lparr>startLine = 0, backgroundColor = Some ''yellow'',
     after = Some \<lparr>backgroundColor_after = None, color_after = Some ''gray'',
       contentText = Some ''2 references'', linkURL = Some ''https://sourcegraph.com/refs''\<rparr>\<rparr>"

definition exampleCss :: css where
  "exampleCss property v attr =
     (if property = ''background-color'' \<and> v = ''yellow'' \<and>
         (attr = None \<or> attr = Some ''background-color: red;'')
      then Some ''background-color: yellow;''
      else if property = ''background-color'' \<and> v = [] \<and> attr = Some ''background-color: yellow;''
      then Some []
      else if property = ''color'' \<and> v = ''gray'' \<and> attr = None
      then Some ''color: gray;''
      else attr)"

subsection \<open>Properties of the activation filter\<close>

lemma arrayFilter_filterCallback:
  "arrayFilter (filterCallback cpt) xs con =
     (Inr (filter (activates cpt) xs), con @ logged cpt xs)"
proof (induction xs arbitrary: con)
  case Nil
  show ?case by (simp add: logged_def)
next
  case (Cons x xs)
  show ?case
  proof (cases "tryBody cpt x")
    case (Inl e)
    then have "filterCallback cpt x con = (Inr False, con @ [e])"
      by (simp add: filterCallback_def)
    moreover have "\<not> activates cpt x" "logged cpt (x # xs) = e # logged cpt xs"
      using Inl by (simp_all add: activates_def logged_def)
    ultimately show ?thesis
      by (simp add: Cons.IH)
  next
    case (Inr b)
    then have "filterCallback cpt x con = (Inr b, con)"
      by (simp add: filterCallback_def)
    moreover have "activates cpt x = b" "logged cpt (x # xs) = logged cpt xs"
      using Inr by (simp_all add: activates_def logged_def)
    ultimately show ?thesis
      by (simp add: Cons.IH)
  qed
qed

lemma environmentFilter_eq:
  "environmentFilter env con =
     (Inr (env\<lparr>extensions := map_option (filter (activates (component env))) (extensions env)\<rparr>),
      con @ (case extensions env of None \<Rightarrow> [] | Some xs \<Rightarrow> logged (component env) xs))"
  by (cases "extensions env") (simp_all add: environmentFilter_def arrayFilter_filterCallback)

lemma activates_iff:
  "activates cpt x \<longleftrightarrow>
     isEnabled x \<and>
     (\<exists>m es. manifest x = Manifest m \<and> activationEvents m = EventsArray es \<and>
        (''*'' \<in> set es \<or>
         (\<exists>c. cpt = Some c \<and> ''onLanguage:'' @ languageId (document c) \<in> set es)))"
proof (cases "manifest x")
  case ManifestNull
  then show ?thesis by (simp add: activates_def tryBody_def)
next
  case (ManifestError e)
  then show ?thesis by (simp add: activates_def tryBody_def)
next
  case (Manifest m)
  show ?thesis
  proof (cases "activationEvents m")
    case EventsUndefined
    with Manifest show ?thesis by (simp add: activates_def tryBody_def)
  next
    case (EventsArray es)
    have "list_ex (eventMatches cpt) es \<longleftrightarrow>
            ''*'' \<in> set es \<or>
            (\<exists>c. cpt = Some c \<and> ''onLanguage:'' @ languageId (document c) \<in> set es)"
      by (cases cpt) (auto simp: list_ex_iff eventMatches_def)
    with Manifest EventsArray show ?thesis
      by (simp add: activates_def tryBody_def)
  next
    case EventsNotArray
    with Manifest show ?thesis by (simp add: activates_def tryBody_def)
  qed
qed

lemma raises_not_activates: "raises cpt x \<Longrightarrow> \<not> activates cpt x"
  by (auto simp: raises_def activates_def)

text \<open>
  C1. For every environment snapshot and every configured extension in it, the
  activation filter returns a snapshot whose extension list contains the extension if
  and only if the extension is enabled, its manifest is present and not an error value,
  and the manifest's activation-event list contains \<open>*\<close> or \<open>onLanguage:<lang>\<close> for the
  language identifier of the active component. With a null component only \<open>*\<close>
  qualifies; a disabled extension and one whose manifest is absent or an error are
  never included.
\<close>

theorem environmentFilter_includes_iff:
  assumes "extensions env = Some xs" and "x \<in> set xs"
  shows "\<exists>ys con'. environmentFilter env con = (Inr (env\<lparr>extensions := Some ys\<rparr>), con') \<and>
           (x \<in> set ys \<longleftrightarrow>
              isEnabled x \<and>
              (\<exists>m es. manifest x = Manifest m \<and> activationEvents m = EventsArray es \<and>
                 (''*'' \<in> set es \<or>
                  (\<exists>c. component env = Some c \<and>
                       ''onLanguage:'' @ languageId (document c) \<in> set es))))"
proof -
  let ?ys = "filter (activates (component env)) xs"
  have "environmentFilter env con =
          (Inr (env\<lparr>extensions := Some ?ys\<rparr>), con @ logged (component env) xs)"
    using assms(1) by (simp add: environmentFilter_eq)
  moreover have "x \<in> set ?ys \<longleftrightarrow> activates (component env) x"
    using assms(2) by simp
  ultimately show ?thesis
    unfolding activates_iff by blast
qed

theorem environmentFilter_includes_iff_witness:
  "extensions envGo = Some [extX, extBroken, extGo] \<and> extGo \<in> set [extX, extBroken, extGo] \<and>
   (\<exists>ys con'. environmentFilter envGo [] = (Inr (envGo\<lparr>extensions := Some ys\<rparr>), con') \<and>
      extGo \<in> set ys)"
  using environmentFilter_includes_iff [of envGo "[extX, extBroken, extGo]" extGo "[]"]
  by (simp add: envGo_def extGo_def)

text \<open>
  C7. An exception raised while the activation events of one extension are evaluated
  is caught: the filter still returns a snapshot (it never raises), the extension is
  left out, and the rest of the output is what the filter returns for the list without
  that extension.
\<close>

theorem environmentFilter_catches:
  "(\<exists>env'. fst (environmentFilter env con) = Inr env') \<and>
   (extensions env = Some (pre @ x # post) \<and> raises (component env) x \<longrightarrow>
      (\<exists>ys. fst (environmentFilter env con) = Inr (env\<lparr>extensions := Some ys\<rparr>) \<and>
            fst (environmentFilter (env\<lparr>extensions := Some (pre @ post)\<rparr>) con) =
              Inr (env\<lparr>extensions := Some ys\<rparr>) \<and>
            x \<notin> set ys))"
  by (auto simp: environmentFilter_eq dest: raises_not_activates)

theorem environmentFilter_catches_witness:
  "extensions envGo = Some ([extX] @ extBroken # [extGo]) \<and> raises (component envGo) extBroken \<and>
   (\<exists>ys. fst (environmentFilter envGo []) = Inr (envGo\<lparr>extensions := Some ys\<rparr>) \<and>
         fst (environmentFilter (envGo\<lparr>extensions := Some ([extX] @ [extGo])\<rparr>) []) =
           Inr (envGo\<lparr>extensions := Some ys\<rparr>) \<and>
         extBroken \<notin> set ys)"
proof -
  have r: "raises (component envGo) extBroken"
    by (simp add: raises_def tryBody_def extBroken_def)
  have e: "extensions envGo = Some ([extX] @ extBroken # [extGo])"
    by (simp add: envGo_def)
  from environmentFilter_catches [of envGo "[]" "[extX]" extBroken "[extGo]"] r e
  show ?thesis by blast
qed

text \<open>
  C9. The filter is deterministic as a two-run property: a second call on the same
  snapshot, made in the state the first call left behind, returns the same snapshot,
  and so do two calls made in any two console states.
\<close>

theorem environmentFilter_two_runs:
  "fst (environmentFilter env (snd (environmentFilter env con))) = fst (environmentFilter env con) \<and>
   fst (environmentFilter env con1) = fst (environmentFilter env con2)"
  by (simp add: environmentFilter_eq)

theorem environmentFilter_two_runs_witness:
  "fst (environmentFilter envGo (snd (environmentFilter envGo []))) = fst (environmentFilter envGo []) \<and>
   snd (environmentFilter envGo []) \<noteq> []"
  using environmentFilter_two_runs [of envGo "[]" "[]" "[]"]
  by (simp add: environmentFilter_eq envGo_def logged_def tryBody_def extBroken_def extX_def extGo_def)

text \<open>
  C10. The filter changes only the extension list: the snapshot it returns has the
  root, the component and every other field of the input snapshot.
\<close>

theorem environmentFilter_frame:
  "\<exists>env'. fst (environmentFilter env con) = Inr env' \<and>
      root env' = root env \<and> component env' = component env \<and>
      environment.more env' = environment.more env \<and>
      env' = env\<lparr>extensions := extensions env'\<rparr>"
  by (simp add: environmentFilter_eq)

theorem environmentFilter_frame_witness:
  "\<exists>env'. fst (environmentFilter envGo []) = Inr env' \<and>
      root env' = Some ''git://github.com/gorilla/mux'' \<and> extensions env' = Some [extX, extGo]"
proof -
  have "fst (environmentFilter envGo []) =
          Inr (envGo\<lparr>extensions := Some [extX, extGo]\<rparr>)"
    by (simp add: environmentFilter_eq envGo_def activates_def tryBody_def
        extBroken_def extX_def extGo_def eventMatches_def)
  with environmentFilter_frame [of envGo "[]"] show ?thesis
    by (simp add: envGo_def)
qed

subsection \<open>Properties of promises and of the relay listeners\<close>

lemma settle_fields [simp]:
  "ports (settle i v w) = ports w" "posted (settle i v w) = posted w"
  "sockets (settle i v w) = sockets w" "origin (settle i v w) = origin w"
  "length (promises (settle i v w)) = length (promises w)"
  by (simp_all add: settle_def)

lemma settle_waitsOn [simp]:
  "waitsOn (promises (settle i v w) ! j) = waitsOn (promises w ! j)"
  by (cases "j = i") (simp_all add: settle_def)

lemma settle_state:
  "state (promises (settle i v w) ! j) =
     (if j = i \<and> i < length (promises w) \<and> state (promises w ! i) = Pending then v
      else state (promises w ! j))"
  by (cases "j = i") (simp_all add: settle_def)

lemma listener_fields [simp]:
  "posted (listener r i w) = posted w" "sockets (listener r i w) = sockets w"
  "origin (listener r i w) = origin w"
  "length (promises (listener r i w)) = length (promises w)"
  "waitsOn (promises (listener r i w) ! j) = waitsOn (promises w ! j)"
  by (cases r; simp add: connect_def settle_def; cases "j = i"; simp)+

lemma listener_ports:
  "ports (listener r i w) = ports w @ (case r of PortName name \<Rightarrow> [name] | ErrorResponse err \<Rightarrow> [])"
  by (cases r) (simp_all add: connect_def)

lemma listener_state:
  "state (promises (listener r i w) ! j) =
     (if j = i \<and> i < length (promises w) \<and> state (promises w ! i) = Pending
      then outcome r (length (ports w))
      else state (promises w ! j))"
  by (cases r) (simp_all add: connect_def settle_state outcome_def)

lemma outcome_not_Pending [simp]: "outcome r h \<noteq> Pending"
  by (cases r) (simp_all add: outcome_def)

lemma fold_listener_frame:
  "posted (fold (listener r) L w) = posted w \<and>
   sockets (fold (listener r) L w) = sockets w \<and>
   origin (fold (listener r) L w) = origin w \<and>
   length (promises (fold (listener r) L w)) = length (promises w) \<and>
   waitsOn (promises (fold (listener r) L w) ! j) = waitsOn (promises w ! j)"
  by (induction L arbitrary: w) simp_all

lemma fold_listener_ports:
  "ports (fold (listener r) L w) =
     ports w @ (case r of PortName name \<Rightarrow> replicate (length L) name | ErrorResponse err \<Rightarrow> [])"
proof (induction L arbitrary: w)
  case Nil
  show ?case by (cases r) simp_all
next
  case (Cons i L)
  have "ports (fold (listener r) (i # L) w) =
          ports (listener r i w) @
            (case r of PortName name \<Rightarrow> replicate (length L) name | ErrorResponse err \<Rightarrow> [])"
    using Cons.IH by simp
  also have "\<dots> = ports w @
      (case r of PortName name \<Rightarrow> replicate (length (i # L)) name | ErrorResponse err \<Rightarrow> [])"
    unfolding listener_ports by (cases r) simp_all
  finally show ?case .
qed

lemma fold_listener_settled:
  "state (promises w ! j) \<noteq> Pending \<Longrightarrow>
   state (promises (fold (listener r) L w) ! j) = state (promises w ! j)"
proof (induction L arbitrary: w)
  case Nil
  show ?case by simp
next
  case (Cons i L)
  have s: "state (promises (listener r i w) ! j) = state (promises w ! j)"
    using Cons.prems by (auto simp: listener_state)
  with Cons.prems have "state (promises (listener r i w) ! j) \<noteq> Pending" by simp
  from Cons.IH [OF this] s show ?case by simp
qed

lemma fold_listener_other:
  "j \<notin> set L \<Longrightarrow> state (promises (fold (listener r) L w) ! j) = state (promises w ! j)"
proof (induction L arbitrary: w)
  case Nil
  show ?case by simp
next
  case (Cons i L)
  then have "j \<noteq> i" "j \<notin> set L" by simp_all
  then show ?case using Cons.IH [of "listener r i w"] by (simp add: listener_state)
qed

lemma listener_ports_length:
  "length (ports w) \<le> length (ports (listener r i w))"
  "length (ports (listener r i w)) \<le> Suc (length (ports w))"
  unfolding listener_ports by (cases r, simp, simp)+

lemma fold_listener_pending:
  "j \<in> set L \<Longrightarrow> j < length (promises w) \<Longrightarrow> state (promises w ! j) = Pending \<Longrightarrow>
   \<exists>h. state (promises (fold (listener r) L w) ! j) = outcome r h \<and>
       length (ports w) \<le> h \<and> h < length (ports w) + length L"
proof (induction L arbitrary: w)
  case Nil
  then show ?case by simp
next
  case (Cons i L)
  let ?w1 = "listener r i w"
  show ?case
  proof (cases "j = i")
    case True
    with Cons.prems have "state (promises ?w1 ! j) = outcome r (length (ports w))"
      by (simp add: listener_state)
    then have "state (promises (fold (listener r) L ?w1) ! j) = outcome r (length (ports w))"
      by (simp add: fold_listener_settled)
    then have "state (promises (fold (listener r) (i # L) w) ! j) = outcome r (length (ports w)) \<and>
        length (ports w) \<le> length (ports w) \<and> length (ports w) < length (ports w) + length (i # L)"
      by simp
    then show ?thesis by (rule exI)
  next
    case False
    with Cons.prems have "j \<in> set L" "j < length (promises ?w1)" "state (promises ?w1 ! j) = Pending"
      by (simp_all add: listener_state)
    from Cons.IH [OF this] obtain h where
      h: "state (promises (fold (listener r) L ?w1) ! j) = outcome r h"
      "length (ports ?w1) \<le> h" "h < length (ports ?w1) + length L"
      by blast
    have "state (promises (fold (listener r) (i # L) w) ! j) = outcome r h \<and>
        length (ports w) \<le> h \<and> h < length (ports w) + length (i # L)"
      using h listener_ports_length [where w = w and r = r and i = i] by auto
    then show ?thesis by (rule exI)
  qed
qed

subsection \<open>Properties of the callbacks that wait for the base origin\<close>

lemma newWebSocket_frame [simp]:
  "ports (snd (newWebSocket u w)) = ports w"
  "posted (snd (newWebSocket u w)) = posted w"
  "origin (snd (newWebSocket u w)) = origin w"
  "promises (snd (newWebSocket u w)) = promises w"
  by (simp_all add: newWebSocket_def)

lemma thenOrigin_eq:
  "thenOrigin P s ident opts i w =
     settle i (originOutcome P s ident opts (length (sockets w)))
       (w\<lparr>sockets := sockets w @ bridged P s ident opts\<rparr>)"
proof (cases "P s")
  case None
  then show ?thesis by (simp add: thenOrigin_def originOutcome_def bridged_def)
next
  case (Some base)
  then show ?thesis
    by (cases "webSocketAccepts (lspProxyURL base ident opts)")
       (simp_all add: thenOrigin_def originOutcome_def bridged_def newWebSocket_def)
qed

lemma thenOrigin_fields [simp]:
  "ports (thenOrigin P s ident opts i w) = ports w"
  "posted (thenOrigin P s ident opts i w) = posted w"
  "origin (thenOrigin P s ident opts i w) = origin w"
  "length (promises (thenOrigin P s ident opts i w)) = length (promises w)"
  "waitsOn (promises (thenOrigin P s ident opts i w) ! j) = waitsOn (promises w ! j)"
  by (simp_all add: thenOrigin_eq)

lemma thenOrigin_sockets:
  "sockets (thenOrigin P s ident opts i w) = sockets w @ bridged P s ident opts"
  by (simp add: thenOrigin_eq)

lemma thenOrigin_state:
  "state (promises (thenOrigin P s ident opts i w) ! j) =
     (if j = i \<and> i < length (promises w) \<and> state (promises w ! i) = Pending
      then originOutcome P s ident opts (length (sockets w))
      else state (promises w ! j))"
  by (simp add: thenOrigin_eq settle_state)

lemma originOutcome_not_Pending [simp]: "originOutcome P s ident opts k \<noteq> Pending"
  by (cases "P s") (simp_all add: originOutcome_def)

lemma thenOrigins_frame:
  "ports (thenOrigins P s L w) = ports w \<and>
   posted (thenOrigins P s L w) = posted w \<and>
   origin (thenOrigins P s L w) = origin w \<and>
   length (promises (thenOrigins P s L w)) = length (promises w) \<and>
   waitsOn (promises (thenOrigins P s L w) ! j) = waitsOn (promises w ! j)"
  by (induction L arbitrary: w) (simp_all add: split_def)

lemma thenOrigins_sockets:
  "sockets (thenOrigins P s L w) =
     sockets w @ concat (map (\<lambda>(i, ident, options). bridged P s ident options) L)"
  by (induction L arbitrary: w) (simp_all add: split_def thenOrigin_sockets)

lemma thenOrigins_settled:
  "state (promises w ! j) \<noteq> Pending \<Longrightarrow>
   state (promises (thenOrigins P s L w) ! j) = state (promises w ! j)"
proof (induction L arbitrary: w)
  case Nil
  show ?case by simp
next
  case (Cons a L)
  obtain i ident opts where a: "a = (i, ident, opts)" by (cases a) auto
  have e: "state (promises (thenOrigin P s ident opts i w) ! j) = state (promises w ! j)"
    using Cons.prems by (auto simp: thenOrigin_state)
  with Cons.prems have "state (promises (thenOrigin P s ident opts i w) ! j) \<noteq> Pending" by simp
  from Cons.IH [OF this] e show ?case by (simp add: a)
qed

lemma thenOrigins_pending:
  "(j, ident, opts) \<in> set L \<Longrightarrow> distinct (map fst L) \<Longrightarrow> j < length (promises w) \<Longrightarrow>
   state (promises w ! j) = Pending \<Longrightarrow> P s = Some base \<Longrightarrow>
   (if webSocketAccepts (lspProxyURL base ident opts)
    then \<exists>k. state (promises (thenOrigins P s L w) ! j) = Resolved (WebSocketTransports k) \<and>
             k < length (sockets (thenOrigins P s L w)) \<and>
             sockets (thenOrigins P s L w) ! k = lspProxyURL base ident opts
    else state (promises (thenOrigins P s L w) ! j) =
           Rejected ''SyntaxError: Failed to construct WebSocket'')"
proof (induction L arbitrary: w)
  case Nil
  then show ?case by simp
next
  case (Cons a L)
  obtain i ident' opts' where a: "a = (i, ident', opts')" by (cases a) auto
  let ?w1 = "thenOrigin P s ident' opts' i w"
  let ?u = "lspProxyURL base ident opts"
  have f: "thenOrigins P s (a # L) w = thenOrigins P s L ?w1" by (simp add: a)
  show ?case
  proof (cases "j = i")
    case True
    have "j \<notin> fst ` set L" using Cons.prems(2) True a by simp
    then have "(j, ident, opts) \<notin> set L" by force
    with Cons.prems(1) a have same: "ident' = ident" "opts' = opts" by simp_all
    let ?k = "length (sockets w)"
    have s1: "state (promises ?w1 ! j) = originOutcome P s ident opts ?k"
      using True Cons.prems same by (simp add: thenOrigin_state)
    have s2: "state (promises (thenOrigins P s L ?w1) ! j) = originOutcome P s ident opts ?k"
      using thenOrigins_settled [of ?w1 j P s L] s1 by simp
    show ?thesis
    proof (cases "webSocketAccepts ?u")
      case False
      with s2 Cons.prems(5) show ?thesis unfolding f by (simp add: originOutcome_def)
    next
      case acc: True
      have "sockets (thenOrigins P s L ?w1) =
          sockets w @ ?u # concat (map (\<lambda>(i, ident, options). bridged P s ident options) L)"
        using Cons.prems(5) same acc
        by (simp add: thenOrigins_sockets thenOrigin_sockets bridged_def)
      with s2 Cons.prems(5) acc
      have "state (promises (thenOrigins P s (a # L) w) ! j) = Resolved (WebSocketTransports ?k) \<and>
         ?k < length (sockets (thenOrigins P s (a # L) w)) \<and>
         sockets (thenOrigins P s (a # L) w) ! ?k = ?u"
        unfolding f by (simp add: originOutcome_def)
      then have "\<exists>k. state (promises (thenOrigins P s (a # L) w) ! j) = Resolved (WebSocketTransports k) \<and>
         k < length (sockets (thenOrigins P s (a # L) w)) \<and>
         sockets (thenOrigins P s (a # L) w) ! k = ?u"
        by (rule exI)
      with acc show ?thesis by simp
    qed
  next
    case False
    with Cons.prems a have "(j, ident, opts) \<in> set L" "distinct (map fst L)"
      "j < length (promises ?w1)" "state (promises ?w1 ! j) = Pending"
      by (simp_all add: thenOrigin_state)
    from Cons.IH [OF this Cons.prems(5)] show ?thesis unfolding f .
  qed
qed

lemma originSubscribers_mem:
  "(i, ident, opts) \<in> set (originSubscribers w) \<longleftrightarrow>
     i < length (promises w) \<and> waitsOn (promises w ! i) = OriginSubscriber ident opts \<and>
     state (promises w ! i) = Pending"
  by (auto simp: originSubscribers_def split: waiting.splits if_splits)

lemma distinct_originSubscribers: "distinct (map fst (originSubscribers w))"
proof -
  have "map fst (concat (map (\<lambda>i. case waitsOn (promises w ! i) of
                         OriginSubscriber ident options \<Rightarrow>
                           if state (promises w ! i) = Pending then [(i, ident, options)] else []
                       | _ \<Rightarrow> []) xs)) =
          filter (\<lambda>i. (\<exists>ident opts. waitsOn (promises w ! i) = OriginSubscriber ident opts) \<and>
                      state (promises w ! i) = Pending) xs" for xs
    by (induction xs) (auto split: waiting.splits)
  then have "map fst (originSubscribers w) =
          filter (\<lambda>i. (\<exists>ident opts. waitsOn (promises w ! i) = OriginSubscriber ident opts) \<and>
                      state (promises w ! i) = Pending) [0..<length (promises w)]"
    unfolding originSubscribers_def .
  then show ?thesis by simp
qed

subsection \<open>Properties of the transport factory\<close>

lemma searchParamsSet_same:
  "filter (\<lambda>p. fst p = name) (searchParamsSet name v ps) = [(name, v)]"
  by (induction ps) (auto simp: filter_empty_conv)

lemma searchParamsSet_other:
  "other \<noteq> name \<Longrightarrow>
   filter (\<lambda>p. fst p = other) (searchParamsSet name v ps) = filter (\<lambda>p. fst p = other) ps"
proof (induction ps)
  case Nil
  then show ?case by simp
next
  case (Cons p ps)
  have "filter (\<lambda>p. fst p = other) (filter (\<lambda>q. fst q \<noteq> name) ps) = filter (\<lambda>p. fst p = other) ps"
    using Cons.prems by (induction ps) auto
  with Cons show ?case by auto
qed

lemma setProtocol_bridge:
  assumes "s = ''ws:'' \<or> s = ''wss:''"
  shows "protocol (setProtocol s base) = (if switchable base then s else protocol base)"
    and "port (setProtocol s base) =
           (if switchable base \<and> port base = defaultPort s then None else port base)"
    and "hostname (setProtocol s base) = hostname base"
    and "pathname (setProtocol s base) = pathname base"
    and "opaquePath (setProtocol s base) = opaquePath base"
    and "searchParams (setProtocol s base) = searchParams base"
    and "fragment (setProtocol s base) = fragment base"
  using assms by (auto simp: setProtocol_def switchable_def specialScheme_def)

lemma lspProxyURL_shape:
  "protocol (lspProxyURL base ident options) =
     (if switchable base then (if protocol base = ''https:'' then ''wss:'' else ''ws:'')
      else protocol base)"
  "hostname (lspProxyURL base ident options) = hostname base"
  "port (lspProxyURL base ident options) =
     (if switchable base \<and>
         port base = defaultPort (if protocol base = ''https:'' then ''wss:'' else ''ws:'')
      then None else port base)"
  "pathname (lspProxyURL base ident options) =
     (if opaquePath base then pathname base else ''/.api/lsp'')"
  "fragment (lspProxyURL base ident options) = fragment base"
  "filter (\<lambda>p. fst p = ''mode'') (searchParams (lspProxyURL base ident options)) = [(''mode'', ident)]"
  "filter (\<lambda>p. fst p = ''rootUri'') (searchParams (lspProxyURL base ident options)) =
     [(''rootUri'', rootOrEmpty options)]"
  by (simp_all add: lspProxyURL_def setPathname_def Let_def searchParamsSet_same
      searchParamsSet_other setProtocol_bridge)

lemma lspProxyURL_http:
  assumes "protocol base = ''https:'' \<or> protocol base = ''http:''"
    and "port base \<noteq> defaultPort (protocol base)"
  shows "host (lspProxyURL base ident options) = host base"
    and "protocol (lspProxyURL base ident options) =
           (if protocol base = ''https:'' then ''wss:'' else ''ws:'')"
    and "webSocketAccepts (lspProxyURL base ident options) \<longleftrightarrow> fragment base = None"
  using assms
  by (auto simp: host_def lspProxyURL_shape switchable_def specialScheme_def defaultPort_def
      webSocketAccepts_def)

lemma factory_tcp_branch:
  assumes "manifest extension = Manifest m" and "type (platform m) = ''tcp''"
  shows "createMessageTransports parseURL c extension options w =
           (Inr (length (promises w)),
            snd (awaitOrigin parseURL (id_ext extension) options w))"
  using assms by (simp add: createMessageTransports_def awaitOrigin_def newPromise_def split: prod.splits)

lemma awaitOrigin_known:
  assumes "origin w = Some urlString" and "parseURL urlString = Some base"
  shows "sockets (snd (awaitOrigin parseURL ident options w)) =
           sockets w @ bridged parseURL urlString ident options"
    and "state (promises (snd (awaitOrigin parseURL ident options w)) ! length (promises w)) =
           originOutcome parseURL urlString ident options (length (sockets w))"
  using assms
  by (simp_all add: awaitOrigin_def newPromise_def thenOrigin_sockets thenOrigin_state)

lemma awaitOrigin_frame:
  "ports (snd (awaitOrigin parseURL ident options w)) = ports w"
  "posted (snd (awaitOrigin parseURL ident options w)) = posted w"
  by (simp_all add: awaitOrigin_def newPromise_def split: option.splits)

lemma awaitOrigin_unknown:
  assumes "origin w = None"
  shows "awaitOrigin parseURL ident options w =
           (length (promises w),
            w\<lparr>promises := promises w @ [\<lparr>waitsOn = OriginSubscriber ident options, state = Pending\<rparr>]\<rparr>)"
  using assms by (simp add: awaitOrigin_def newPromise_def)

lemma onOriginResolved_subscriber:
  assumes "origin w = None" and "parseURL urlString = Some base"
    and "i < length (promises w)" and "waitsOn (promises w ! i) = OriginSubscriber ident options"
    and "state (promises w ! i) = Pending"
  shows "if webSocketAccepts (lspProxyURL base ident options)
         then \<exists>k. state (promises (onOriginResolved parseURL urlString w) ! i) =
                    Resolved (WebSocketTransports k) \<and>
                  k < length (sockets (onOriginResolved parseURL urlString w)) \<and>
                  sockets (onOriginResolved parseURL urlString w) ! k = lspProxyURL base ident options
         else state (promises (onOriginResolved parseURL urlString w) ! i) =
                Rejected ''SyntaxError: Failed to construct WebSocket''"
proof -
  let ?w = "w\<lparr>origin := Some urlString\<rparr>"
  have r: "onOriginResolved parseURL urlString w =
             thenOrigins parseURL urlString (originSubscribers w) ?w"
    using assms(1) by (simp add: onOriginResolved_def)
  have m: "(i, ident, options) \<in> set (originSubscribers w)"
    using assms(3-5) by (simp add: originSubscribers_mem)
  have p: "i < length (promises ?w)" "state (promises ?w ! i) = Pending"
    using assms(3,5) by simp_all
  show ?thesis
    unfolding r
    by (rule thenOrigins_pending [where P = parseURL and s = urlString
          and L = "originSubscribers w" and j = i and ident = ident and opts = options
          and w = ?w and base = base, OF m distinct_originSubscribers p assms(2)])
qed

text \<open>
  The earlier revision of the tcp branch builds the same URL, from its constant origin,
  and opens the socket during the call.
\<close>

lemma createMessageTransports_localhost_tcp:
  assumes "manifest extension = Manifest m" and "type (platform m) = ''tcp''"
  shows "createMessageTransports_localhost c extension options w =
           (Inr (length (promises w)),
            w\<lparr>sockets := sockets w @
                   [\<lparr>protocol = ''ws:'', username = [], password = [], hostname = ''localhost'',
                     port = Some 3080, pathname = ''/.api/lsp'', opaquePath = False,
                     searchParams = [(''mode'', id_ext extension), (''rootUri'', rootOrEmpty options)],
                     fragment = None\<rparr>],
               promises := promises w @
                   [\<lparr>waitsOn = Nothing,
                     state = Resolved (WebSocketTransports (length (sockets w)))\<rparr>]\<rparr>)"
proof -
  have u: "lspProxyURL localhost3080 (id_ext extension) options =
             \<lparr>protocol = ''ws:'', username = [], password = [], hostname = ''localhost'',
              port = Some 3080, pathname = ''/.api/lsp'', opaquePath = False,
              searchParams = [(''mode'', id_ext extension), (''rootUri'', rootOrEmpty options)],
              fragment = None\<rparr>"
    by (simp add: lspProxyURL_def localhost3080_def setPathname_def setProtocol_def
        specialScheme_def defaultPort_def)
  show ?thesis
    using assms
    by (simp add: createMessageTransports_localhost_def u newWebSocket_def webSocketAccepts_def
        newPromise_def)
qed

text \<open>
  C3, amended. For an extension whose manifest's platform kind is tcp, the factory
  returns a promise and builds the bridge URL from the base origin: the scheme becomes
  \<open>wss:\<close> for \<open>https:\<close> and \<open>ws:\<close> for every other special scheme (ftp, http, ws, wss,
  and file with a host), while a scheme that is not special (and the scheme of a file
  URL without a host) stays as it is; the host name is kept, and the port too unless it
  is the default port of the new scheme; the path becomes \<open>/.api/lsp\<close> unless the
  origin has an opaque path; \<open>mode\<close> is set to the extension id and \<open>rootUri\<close> to the
  root of the connection, or to the empty string when the root is absent. A WebSocket
  to that URL is opened when the WebSocket constructor accepts it (scheme \<open>ws:\<close> or
  \<open>wss:\<close>, no fragment), and the promise is rejected otherwise. When the promise for the
  origin has resolved at call time this happens in the call; when it has not, no
  socket is opened and the promise stays pending until the origin arrives. In the
  earlier revision of the file the origin is the constant \<open>http://localhost:3080\<close> and
  the socket is opened during the call.
\<close>

theorem createMessageTransports_tcp:
  assumes "manifest extension = Manifest m" and "type (platform m) = ''tcp''"
    and "parseURL urlString = Some base"
  shows "(\<exists>i w' u.
           createMessageTransports parseURL c extension options w = (Inr i, w') \<and>
           u = lspProxyURL base (id_ext extension) options \<and>
           protocol u =
             (if switchable base then (if protocol base = ''https:'' then ''wss:'' else ''ws:'')
              else protocol base) \<and>
           hostname u = hostname base \<and>
           port u = (if switchable base \<and> port base = defaultPort (protocol u) then None
                     else port base) \<and>
           pathname u = (if opaquePath base then pathname base else ''/.api/lsp'') \<and>
           filter (\<lambda>p. fst p = ''mode'') (searchParams u) = [(''mode'', id_ext extension)] \<and>
           filter (\<lambda>p. fst p = ''rootUri'') (searchParams u) =
             [(''rootUri'', case root_options options of None \<Rightarrow> [] | Some r \<Rightarrow> r)] \<and>
           ports w' = ports w \<and> posted w' = posted w \<and>
           (origin w = Some urlString \<longrightarrow>
              (if webSocketAccepts u
               then sockets w' = sockets w @ [u] \<and>
                    state (promises w' ! i) = Resolved (WebSocketTransports (length (sockets w)))
               else sockets w' = sockets w \<and>
                    state (promises w' ! i) =
                      Rejected ''SyntaxError: Failed to construct WebSocket'')) \<and>
           (origin w = None \<longrightarrow>
              sockets w' = sockets w \<and> state (promises w' ! i) = Pending \<and>
              (if webSocketAccepts u
               then \<exists>k. state (promises (onOriginResolved parseURL urlString w') ! i) =
                          Resolved (WebSocketTransports k) \<and>
                        k < length (sockets (onOriginResolved parseURL urlString w')) \<and>
                        sockets (onOriginResolved parseURL urlString w') ! k = u
               else state (promises (onOriginResolved parseURL urlString w') ! i) =
                      Rejected ''SyntaxError: Failed to construct WebSocket''))) \<and>
         createMessageTransports_localhost c extension options w =
           (Inr (length (promises w)),
            w\<lparr>sockets := sockets w @
                   [\<lparr>protocol = ''ws:'', username = [], password = [], hostname = ''localhost'',
                     port = Some 3080, pathname = ''/.api/lsp'', opaquePath = False,
                     searchParams = [(''mode'', id_ext extension),
                                     (''rootUri'', case root_options options of None \<Rightarrow> [] | Some r \<Rightarrow> r)],
                     fragment = None\<rparr>],
               promises := promises w @
                   [\<lparr>waitsOn = Nothing,
                     state = Resolved (WebSocketTransports (length (sockets w)))\<rparr>]\<rparr>)"
proof -
  let ?i = "length (promises w)"
  let ?w' = "snd (awaitOrigin parseURL (id_ext extension) options w)"
  let ?u = "lspProxyURL base (id_ext extension) options"
  let ?no = "Rejected ''SyntaxError: Failed to construct WebSocket''"
  have c: "createMessageTransports parseURL c extension options w = (Inr ?i, ?w')"
    using assms(1,2) by (rule factory_tcp_branch)
  have frame: "ports ?w' = ports w" "posted ?w' = posted w"
    by (simp_all add: awaitOrigin_frame)
  have known: "origin w = Some urlString \<longrightarrow>
      (if webSocketAccepts ?u
       then sockets ?w' = sockets w @ [?u] \<and>
            state (promises ?w' ! ?i) = Resolved (WebSocketTransports (length (sockets w)))
       else sockets ?w' = sockets w \<and> state (promises ?w' ! ?i) = ?no)"
    using awaitOrigin_known [where parseURL = parseURL and urlString = urlString and base = base
        and w = w and ident = "id_ext extension" and options = options] assms(3)
    by (simp add: bridged_def originOutcome_def)
  have unknown: "origin w = None \<longrightarrow>
      sockets ?w' = sockets w \<and> state (promises ?w' ! ?i) = Pending \<and>
      (if webSocketAccepts ?u
       then \<exists>k. state (promises (onOriginResolved parseURL urlString ?w') ! ?i) =
                  Resolved (WebSocketTransports k) \<and>
                k < length (sockets (onOriginResolved parseURL urlString ?w')) \<and>
                sockets (onOriginResolved parseURL urlString ?w') ! k = ?u
       else state (promises (onOriginResolved parseURL urlString ?w') ! ?i) = ?no)"
  proof
    assume n: "origin w = None"
    let ?w1 = "w\<lparr>promises := promises w @
                 [\<lparr>waitsOn = OriginSubscriber (id_ext extension) options, state = Pending\<rparr>]\<rparr>"
    have e: "?w' = ?w1" using n by (simp add: awaitOrigin_unknown)
    have "if webSocketAccepts ?u
       then \<exists>k. state (promises (onOriginResolved parseURL urlString ?w1) ! ?i) =
                  Resolved (WebSocketTransports k) \<and>
                k < length (sockets (onOriginResolved parseURL urlString ?w1)) \<and>
                sockets (onOriginResolved parseURL urlString ?w1) ! k = ?u
       else state (promises (onOriginResolved parseURL urlString ?w1) ! ?i) = ?no"
      using onOriginResolved_subscriber [where parseURL = parseURL and urlString = urlString
          and base = base and w = ?w1 and i = ?i and ident = "id_ext extension" and options = options]
        assms(3) n
      by simp
    then show "sockets ?w' = sockets w \<and> state (promises ?w' ! ?i) = Pending \<and>
      (if webSocketAccepts ?u
       then \<exists>k. state (promises (onOriginResolved parseURL urlString ?w') ! ?i) =
                  Resolved (WebSocketTransports k) \<and>
                k < length (sockets (onOriginResolved parseURL urlString ?w')) \<and>
                sockets (onOriginResolved parseURL urlString ?w') ! k = ?u
       else state (promises (onOriginResolved parseURL urlString ?w') ! ?i) = ?no)"
      unfolding e by simp
  qed
  have shape: "protocol ?u =
        (if switchable base then (if protocol base = ''https:'' then ''wss:'' else ''ws:'')
         else protocol base)"
    "hostname ?u = hostname base"
    "port ?u = (if switchable base \<and> port base = defaultPort (protocol ?u) then None
                else port base)"
    "pathname ?u = (if opaquePath base then pathname base else ''/.api/lsp'')"
    "filter (\<lambda>p. fst p = ''mode'') (searchParams ?u) = [(''mode'', id_ext extension)]"
    "filter (\<lambda>p. fst p = ''rootUri'') (searchParams ?u) =
       [(''rootUri'', case root_options options of None \<Rightarrow> [] | Some r \<Rightarrow> r)]"
    by (simp_all add: lspProxyURL_shape rootOrEmpty_def)
  have later: "\<exists>i w' u.
           createMessageTransports parseURL c extension options w = (Inr i, w') \<and>
           u = lspProxyURL base (id_ext extension) options \<and>
           protocol u =
             (if switchable base then (if protocol base = ''https:'' then ''wss:'' else ''ws:'')
              else protocol base) \<and>
           hostname u = hostname base \<and>
           port u = (if switchable base \<and> port base = defaultPort (protocol u) then None
                     else port base) \<and>
           pathname u = (if opaquePath base then pathname base else ''/.api/lsp'') \<and>
           filter (\<lambda>p. fst p = ''mode'') (searchParams u) = [(''mode'', id_ext extension)] \<and>
           filter (\<lambda>p. fst p = ''rootUri'') (searchParams u) =
             [(''rootUri'', case root_options options of None \<Rightarrow> [] | Some r \<Rightarrow> r)] \<and>
           ports w' = ports w \<and> posted w' = posted w \<and>
           (origin w = Some urlString \<longrightarrow>
              (if webSocketAccepts u
               then sockets w' = sockets w @ [u] \<and>
                    state (promises w' ! i) = Resolved (WebSocketTransports (length (sockets w)))
               else sockets w' = sockets w \<and>
                    state (promises w' ! i) =
                      Rejected ''SyntaxError: Failed to construct WebSocket'')) \<and>
           (origin w = None \<longrightarrow>
              sockets w' = sockets w \<and> state (promises w' ! i) = Pending \<and>
              (if webSocketAccepts u
               then \<exists>k. state (promises (onOriginResolved parseURL urlString w') ! i) =
                          Resolved (WebSocketTransports k) \<and>
                        k < length (sockets (onOriginResolved parseURL urlString w')) \<and>
                        sockets (onOriginResolved parseURL urlString w') ! k = u
               else state (promises (onOriginResolved parseURL urlString w') ! i) =
                      Rejected ''SyntaxError: Failed to construct WebSocket''))"
    using c shape frame known unknown
    by - (intro exI conjI, (assumption | rule refl)+)
  have earlier: "createMessageTransports_localhost c extension options w =
           (Inr (length (promises w)),
            w\<lparr>sockets := sockets w @
                   [\<lparr>protocol = ''ws:'', username = [], password = [], hostname = ''localhost'',
                     port = Some 3080, pathname = ''/.api/lsp'', opaquePath = False,
                     searchParams = [(''mode'', id_ext extension),
                                     (''rootUri'', case root_options options of None \<Rightarrow> [] | Some r \<Rightarrow> r)],
                     fragment = None\<rparr>],
               promises := promises w @
                   [\<lparr>waitsOn = Nothing,
                     state = Resolved (WebSocketTransports (length (sockets w)))\<rparr>]\<rparr>)"
    using createMessageTransports_localhost_tcp [OF assms(1,2), of c options w]
    by (simp only: rootOrEmpty_def)
  from later earlier show ?thesis by (rule conjI)
qed

theorem createMessageTransports_tcp_witness:
  "\<exists>i w'. createMessageTransports parseExample 0 extGo optionsMux (snd moduleLoad) = (Inr i, w') \<and>
      sockets w' = [] \<and> state (promises w' ! i) = Pending \<and>
      (\<exists>k. state (promises (onOriginResolved parseExample ''https://sourcegraph.com'' w') ! i) =
             Resolved (WebSocketTransports k) \<and>
           sockets (onOriginResolved parseExample ''https://sourcegraph.com'' w') ! k =
             \<lparr>protocol = ''wss:'', username = [], password = [], hostname = ''sourcegraph.com'',
              port = None, pathname = ''/.api/lsp'', opaquePath = False,
              searchParams = [(''mode'', ''langserver/go''), (''rootUri'', ''git://github.com/gorilla/mux'')],
              fragment = None\<rparr>)"
proof -
  have m: "manifest extGo = Manifest \<lparr>activationEvents = EventsArray [''onLanguage:go''],
       platform = \<lparr>type = ''tcp'', properties = [(''address'', ''tcp://go:4389'')]\<rparr>\<rparr>"
    by (simp add: extGo_def)
  have t: "type (platform \<lparr>activationEvents = EventsArray [''onLanguage:go''],
       platform = \<lparr>type = ''tcp'', properties = [(''address'', ''tcp://go:4389'')]\<rparr>\<rparr>) = ''tcp''"
    by simp
  have p: "parseExample ''https://sourcegraph.com'' = Some sourcegraphCom"
    by (simp add: parseExample_def)
  have u: "lspProxyURL sourcegraphCom (id_ext extGo) optionsMux =
             \<lparr>protocol = ''wss:'', username = [], password = [], hostname = ''sourcegraph.com'',
              port = None, pathname = ''/.api/lsp'', opaquePath = False,
              searchParams = [(''mode'', ''langserver/go''), (''rootUri'', ''git://github.com/gorilla/mux'')],
              fragment = None\<rparr>"
    by code_simp
  have a: "webSocketAccepts (lspProxyURL sourcegraphCom (id_ext extGo) optionsMux)"
    by code_simp
  have o: "origin (snd moduleLoad) = None" "sockets (snd moduleLoad) = []"
    by (simp_all add: moduleLoad_def connect_def emptyWorld_def)
  from createMessageTransports_tcp [where extension = extGo and parseURL = parseExample
      and urlString = "''https://sourcegraph.com''" and base = sourcegraphCom and c = 0
      and options = optionsMux and w = "snd moduleLoad", OF m t p, THEN conjunct1]
  show ?thesis
    using o a by (auto simp: u)
qed

text \<open>
  C3 as stated fails for a base origin whose scheme is not special: the origin
  \<open>foo://example.com/\<close> keeps its scheme \<open>foo:\<close> instead of getting \<open>ws:\<close>, the WebSocket
  constructor refuses the URL, no socket is opened and the promise is rejected.
\<close>

theorem scheme_that_is_not_special_stays:
  "parseExample ''foo://example.com/'' = Some exampleFoo \<and>
   lspProxyURL exampleFoo (id_ext extGo) optionsMux =
     \<lparr>protocol = ''foo:'', username = [], password = [], hostname = ''example.com'',
      port = None, pathname = ''/.api/lsp'', opaquePath = False,
      searchParams = [(''mode'', ''langserver/go''), (''rootUri'', ''git://github.com/gorilla/mux'')],
      fragment = None\<rparr> \<and>
   sockets (run parseExample [OriginResolved ''foo://example.com/'', Call extGo optionsMux]) = [] \<and>
   map state (promises (run parseExample [OriginResolved ''foo://example.com/'', Call extGo optionsMux])) =
     [Rejected ''SyntaxError: Failed to construct WebSocket'']"
  by code_simp

text \<open>
  C2. The factory fails with a descriptive error when the manifest is null (thrown,
  "no manifest found"), when the manifest is an error value (thrown, "invalid
  manifest" followed by the message of the inner error), and when the platform kind is
  none of websocket, tcp and bundle (the returned promise is rejected, "type ... is
  not supported"). In each of the three cases no port and no socket is opened and
  nothing is posted.
\<close>

theorem createMessageTransports_fails:
  "(manifest extension = ManifestNull \<longrightarrow>
      createMessageTransports parseURL c extension options w =
        (Inl (''unable to connect to extension '' @ jsonStringify (id_ext extension) @
              '': no manifest found''), w)) \<and>
   (manifest extension = ManifestError e \<longrightarrow>
      createMessageTransports parseURL c extension options w =
        (Inl (''unable to connect to extension '' @ jsonStringify (id_ext extension) @
              '': invalid manifest: '' @
              (case message e of None \<Rightarrow> ''undefined'' | Some msg \<Rightarrow> msg)), w)) \<and>
   (manifest extension = Manifest m \<and> type (platform m) \<noteq> ''websocket'' \<and>
    type (platform m) \<noteq> ''tcp'' \<and> type (platform m) \<noteq> ''bundle'' \<longrightarrow>
      (\<exists>i w'. createMessageTransports parseURL c extension options w = (Inr i, w') \<and>
         i = length (promises w) \<and>
         promises w' = promises w @
           [\<lparr>waitsOn = Nothing,
             state = Rejected (''Unable to connect to CXP extension '' @
                       jsonStringify (id_ext extension) @ '': type '' @
                       jsonStringify (type (platform m)) @ '' is not supported'')\<rparr>] \<and>
         ports w' = ports w \<and> sockets w' = sockets w \<and> posted w' = posted w \<and>
         origin w' = origin w))"
  by (simp add: createMessageTransports_def templateString_def newPromise_def)

theorem createMessageTransports_fails_witness:
  "createMessageTransports parseExample 0 extNoManifest optionsMux (snd moduleLoad) =
     (Inl (''unable to connect to extension '' @ [CHR 0x22] @ ''none'' @ [CHR 0x22] @
           '': no manifest found''), snd moduleLoad) \<and>
   createMessageTransports parseExample 0 extBadManifest optionsMux (snd moduleLoad) =
     (Inl (''unable to connect to extension '' @ [CHR 0x22] @ ''bad'' @ [CHR 0x22] @
           '': invalid manifest: 404 Not Found''), snd moduleLoad) \<and>
   (\<exists>w'. createMessageTransports parseExample 0 extPigeon optionsMux (snd moduleLoad) = (Inr 0, w') \<and>
      state (promises w' ! 0) =
        Rejected (''Unable to connect to CXP extension '' @ [CHR 0x22] @ ''pigeon'' @ [CHR 0x22] @
          '': type '' @ [CHR 0x22] @ ''carrierpigeon'' @ [CHR 0x22] @ '' is not supported'') \<and>
      ports w' = [''CONTROL''] \<and> sockets w' = [] \<and> posted w' = [])"
proof -
  have w0: "snd moduleLoad = \<lparr>ports = [''CONTROL''], posted = [], sockets = [], origin = None, promises = []\<rparr>"
    by (simp add: moduleLoad_def connect_def emptyWorld_def)
  have q: "jsonStringify ''none'' = [CHR 0x22] @ ''none'' @ [CHR 0x22]"
    "jsonStringify ''bad'' = [CHR 0x22] @ ''bad'' @ [CHR 0x22]"
    "jsonStringify ''pigeon'' = [CHR 0x22] @ ''pigeon'' @ [CHR 0x22]"
    "jsonStringify ''carrierpigeon'' = [CHR 0x22] @ ''carrierpigeon'' @ [CHR 0x22]"
    by (simp_all add: jsonStringify_def quoteChar_def)
  have a: "manifest extNoManifest = ManifestNull" "id_ext extNoManifest = ''none''"
    by (simp_all add: extNoManifest_def)
  have b: "manifest extBadManifest = ManifestError \<lparr>message = Some ''404 Not Found''\<rparr>"
    "id_ext extBadManifest = ''bad''"
    by (simp_all add: extBadManifest_def)
  have c: "manifest extPigeon = Manifest \<lparr>activationEvents = EventsArray [''*''],
       platform = \<lparr>type = ''carrierpigeon'', properties = []\<rparr>\<rparr>" "id_ext extPigeon = ''pigeon''"
    by (simp_all add: extPigeon_def)
  show ?thesis
    using createMessageTransports_fails [of extNoManifest parseExample 0 optionsMux "snd moduleLoad"]
      createMessageTransports_fails [of extBadManifest parseExample 0 optionsMux "snd moduleLoad"
        "\<lparr>message = Some ''404 Not Found''\<rparr>"]
      createMessageTransports_fails [where extension = extPigeon and parseURL = parseExample
        and c = 0 and options = optionsMux and w = "snd moduleLoad"
        and m = "\<lparr>activationEvents = EventsArray [''*''],
             platform = \<lparr>type = ''carrierpigeon'', properties = []\<rparr>\<rparr>"]
    by (simp add: a b c q w0) force
qed

subsection \<open>Properties of the relay control channel\<close>

text \<open>
  C4, amended. Every promise that is pending on the shared control port when
  a response arrives is settled by that response, whichever request the response
  answers: it is rejected with the error of the response, or resolved with the
  transports over a port newly opened under the port name of the response. A promise
  that is already settled keeps its value.
\<close>

theorem onControlMessage_settles_every_pending:
  assumes "i < length (promises w)" and "waitsOn (promises w ! i) = ControlListener"
  shows "(state (promises w ! i) = Pending \<longrightarrow>
            (\<exists>h. state (promises (onControlMessage r w) ! i) = outcome r h \<and>
                 length (ports w) \<le> h \<and>
                 (\<forall>name. r = PortName name \<longrightarrow>
                    h < length (ports (onControlMessage r w)) \<and>
                    ports (onControlMessage r w) ! h = name))) \<and>
         (state (promises w ! i) \<noteq> Pending \<longrightarrow>
            state (promises (onControlMessage r w) ! i) = state (promises w ! i))"
proof (intro conjI impI)
  assume "state (promises w ! i) \<noteq> Pending"
  then show "state (promises (onControlMessage r w) ! i) = state (promises w ! i)"
    unfolding onControlMessage_def by (rule fold_listener_settled)
next
  assume p: "state (promises w ! i) = Pending"
  let ?L = "controlListeners w"
  have "i \<in> set ?L" using assms by (simp add: controlListeners_def)
  from fold_listener_pending [OF this assms(1) p, of r] obtain h where
    h: "state (promises (fold (listener r) ?L w) ! i) = outcome r h"
      "length (ports w) \<le> h" "h < length (ports w) + length ?L"
    by blast
  have "\<forall>name. r = PortName name \<longrightarrow>
          h < length (ports (fold (listener r) ?L w)) \<and> ports (fold (listener r) ?L w) ! h = name"
    using h(2,3) by (auto simp: fold_listener_ports nth_append)
  with h(1,2) show "\<exists>h. state (promises (onControlMessage r w) ! i) = outcome r h \<and>
                 length (ports w) \<le> h \<and>
                 (\<forall>name. r = PortName name \<longrightarrow>
                    h < length (ports (onControlMessage r w)) \<and>
                    ports (onControlMessage r w) ! h = name)"
    unfolding onControlMessage_def by blast
qed

theorem onControlMessage_settles_every_pending_witness:
  "1 < length (promises (run parseExample [Call extX optionsMux, Call extBundle optionsMux])) \<and>
   waitsOn (promises (run parseExample [Call extX optionsMux, Call extBundle optionsMux]) ! 1) =
     ControlListener \<and>
   state (promises (run parseExample [Call extX optionsMux, Call extBundle optionsMux]) ! 1) = Pending \<and>
   (\<exists>h. state (promises (onControlMessage (ErrorResponse ''no such extension: x'')
               (run parseExample [Call extX optionsMux, Call extBundle optionsMux])) ! 1) =
           outcome (ErrorResponse ''no such extension: x'') h)"
proof -
  let ?w = "run parseExample [Call extX optionsMux, Call extBundle optionsMux]"
  have a: "1 < length (promises ?w)" by code_simp
  have b: "waitsOn (promises ?w ! 1) = ControlListener" by code_simp
  have c: "state (promises ?w ! 1) = Pending" by code_simp
  from onControlMessage_settles_every_pending [OF a b, of "ErrorResponse ''no such extension: x''"] a b c
  show ?thesis by blast
qed

text \<open>
  C4 as stated fails. Two requests (one websocket kind, one bundle kind) are in flight
  on the control port; one response arrives. It can answer one of the two requests
  only, yet it settles both promises, each with a port opened under the same name.
\<close>

theorem one_response_settles_two_requests:
  "posted (run parseExample [Call extX optionsMux, Call extBundle optionsMux]) =
     [(0, ''x'', \<lparr>type = ''websocket'', properties = [(''url'', ''wss://h/x'')]\<rparr>),
      (0, ''bundled'', \<lparr>type = ''bundle'', properties = [(''url'', ''https://h/bundled.js'')]\<rparr>)] \<and>
   map state (promises (run parseExample [Call extX optionsMux, Call extBundle optionsMux])) =
     [Pending, Pending] \<and>
   settledBy (PortName ''port-1'')
     (run parseExample [Call extX optionsMux, Call extBundle optionsMux]) = [0, 1] \<and>
   map state (promises (run parseExample
       [Call extX optionsMux, Call extBundle optionsMux, ControlMessage (PortName ''port-1'')])) =
     [Resolved (PortTransports 1), Resolved (PortTransports 2)] \<and>
   ports (run parseExample
       [Call extX optionsMux, Call extBundle optionsMux, ControlMessage (PortName ''port-1'')]) =
     [''CONTROL'', ''port-1'', ''port-1'']"
  by code_simp

lemma createMessageTransports_ports:
  "ports (snd (createMessageTransports parseURL c extension options w)) = ports w"
  by (cases "manifest extension")
     (simp_all add: createMessageTransports_def createPlatformMessageTransports_def newPromise_def
        awaitOrigin_frame split_beta)

lemma createMessageTransports_posted:
  "posted (snd (createMessageTransports parseURL c extension options w)) =
     posted w @ relayRequests c [Call extension options]"
  by (cases "manifest extension")
     (simp_all add: createMessageTransports_def createPlatformMessageTransports_def newPromise_def
        awaitOrigin_frame relayRequests_def split_beta)

lemma onOriginResolved_frame:
  "ports (onOriginResolved parseURL s w) = ports w"
  "posted (onOriginResolved parseURL s w) = posted w"
  by (cases "origin w"; simp add: onOriginResolved_def thenOrigins_frame)+

lemma step_posted:
  "posted (step parseURL c ev w) = posted w @ relayRequests c [ev]"
proof (cases ev)
  case (Call extension options)
  then show ?thesis by (simp add: createMessageTransports_posted)
next
  case (ControlMessage r)
  then show ?thesis by (simp add: onControlMessage_def fold_listener_frame relayRequests_def)
next
  case (OriginResolved s)
  then show ?thesis by (simp add: onOriginResolved_frame relayRequests_def)
qed

lemma step_ports:
  "\<exists>names. ports (step parseURL c ev w) = ports w @ names \<and>
           set names \<subseteq> {name. ev = ControlMessage (PortName name)}"
proof (cases ev)
  case (Call extension options)
  then show ?thesis by (simp add: createMessageTransports_ports)
next
  case (ControlMessage r)
  then show ?thesis
    by (cases r) (auto simp: onControlMessage_def fold_listener_ports)
next
  case (OriginResolved s)
  then show ?thesis by (simp add: onOriginResolved_frame)
qed

lemma run_snoc: "run parseURL (evs @ [ev]) = step parseURL (fst moduleLoad) ev (run parseURL evs)"
  by (simp add: run_def)

lemma relayRequests_append:
  "relayRequests c (evs @ evs') = relayRequests c evs @ relayRequests c evs'"
  by (simp add: relayRequests_def)

lemma run_posted: "posted (run parseURL evs) = relayRequests (fst moduleLoad) evs"
proof (induction evs rule: rev_induct)
  case Nil
  show ?case by (simp add: run_def relayRequests_def moduleLoad_def connect_def emptyWorld_def)
next
  case (snoc ev evs)
  then show ?case by (simp add: run_snoc step_posted relayRequests_append)
qed

lemma run_ports:
  "\<exists>names. ports (run parseURL evs) = ''CONTROL'' # names \<and>
           set names \<subseteq> {name. ControlMessage (PortName name) \<in> set evs}"
proof (induction evs rule: rev_induct)
  case Nil
  show ?case by (simp add: run_def moduleLoad_def connect_def emptyWorld_def)
next
  case (snoc ev evs)
  then obtain names where n: "ports (run parseURL evs) = ''CONTROL'' # names"
    "set names \<subseteq> {name. ControlMessage (PortName name) \<in> set evs}" by blast
  from step_ports [of parseURL "fst moduleLoad" ev "run parseURL evs"] obtain more where
    m: "ports (run parseURL (evs @ [ev])) = ports (run parseURL evs) @ more"
    "set more \<subseteq> {name. ev = ControlMessage (PortName name)}"
    unfolding run_snoc by blast
  have "ports (run parseURL (evs @ [ev])) = ''CONTROL'' # (names @ more)"
    using n(1) m(1) by simp
  moreover have "set (names @ more) \<subseteq> {name. ControlMessage (PortName name) \<in> set (evs @ [ev])}"
    using n(2) m(2) by auto
  ultimately show ?case by blast
qed

text \<open>
  C8. One control port is opened, when the module is loaded and before any request:
  it has handle 0 and the name CONTROL. No call of the factory opens a port. In every
  run, the messages posted are exactly the websocket and bundle requests made, in
  order, all posted on handle 0; and every port opened after the control port was
  opened by a listener for a response, under the port name of that response.
\<close>

theorem one_control_channel:
  "fst moduleLoad = 0 \<and> ports (snd moduleLoad) = [''CONTROL''] \<and>
   ports (snd (createMessageTransports parseURL c extension options w)) = ports w \<and>
   posted (run parseURL evs) = relayRequests 0 evs \<and>
   (\<exists>names. ports (run parseURL evs) = ''CONTROL'' # names \<and>
            set names \<subseteq> {name. ControlMessage (PortName name) \<in> set evs})"
proof -
  have z: "fst moduleLoad = 0" "ports (snd moduleLoad) = [''CONTROL'']"
    by (simp_all add: moduleLoad_def connect_def emptyWorld_def)
  show ?thesis
    using z createMessageTransports_ports [of parseURL c extension options w]
      run_posted [of parseURL evs] run_ports [of parseURL evs]
    by simp
qed

theorem one_control_channel_witness:
  "posted (run parseExample
     [Call extX optionsMux, Call extGo optionsMux, ControlMessage (PortName ''port-1''),
      Call extBundle optionsMux, ControlMessage (ErrorResponse ''failed'')]) =
     [(0, ''x'', \<lparr>type = ''websocket'', properties = [(''url'', ''wss://h/x'')]\<rparr>),
      (0, ''bundled'', \<lparr>type = ''bundle'', properties = [(''url'', ''https://h/bundled.js'')]\<rparr>)] \<and>
   ports (run parseExample
     [Call extX optionsMux, Call extGo optionsMux, ControlMessage (PortName ''port-1''),
      Call extBundle optionsMux, ControlMessage (ErrorResponse ''failed'')]) =
     [''CONTROL'', ''port-1'']"
proof -
  let ?evs = "[Call extX optionsMux, Call extGo optionsMux, ControlMessage (PortName ''port-1''),
      Call extBundle optionsMux, ControlMessage (ErrorResponse ''failed'')]"
  have r: "relayRequests 0 ?evs =
     [(0, ''x'', \<lparr>type = ''websocket'', properties = [(''url'', ''wss://h/x'')]\<rparr>),
      (0, ''bundled'', \<lparr>type = ''bundle'', properties = [(''url'', ''https://h/bundled.js'')]\<rparr>)]"
    by code_simp
  have p: "ports (run parseExample ?evs) = [''CONTROL'', ''port-1'']"
    by code_simp
  from one_control_channel [of parseExample 0 extX optionsMux "snd moduleLoad" ?evs] r p
  show ?thesis by simp
qed

subsection \<open>Properties of the decoration renderer\<close>

lemma nodeAt_append:
  "nodeAt t (p @ q) = (case nodeAt t p of None \<Rightarrow> None | Some n \<Rightarrow> nodeAt n q)"
  by (induction t p rule: nodeAt.induct) simp_all

lemma updateAt_updateAt: "updateAt p f (updateAt p g t) = updateAt p (f \<circ> g) t"
  by (induction p g t rule: updateAt.induct) simp_all

lemma updateAt_cong_at:
  "(\<And>n. nodeAt t p = Some n \<Longrightarrow> f n = g n) \<Longrightarrow> updateAt p f t = updateAt p g t"
  by (induction p f t rule: updateAt.induct) simp_all

lemma updateAt_id: "updateAt p (\<lambda>n. n) t = t"
  by (induction p "\<lambda>n::node. n" t rule: updateAt.induct) simp_all

lemma nodeAt_updateAt: "nodeAt (updateAt p f t) p = map_option f (nodeAt t p)"
  by (induction p f t rule: updateAt.induct) simp_all

lemma nextElementSibling_Element:
  assumes "nextElementSibling fileElement q = Some p"
  shows "\<exists>t a cs. nodeAt fileElement p = Some (Element t a cs)"
proof (cases "q = []")
  case True
  with assms show ?thesis by (simp add: nextElementSibling_def)
next
  case False
  show ?thesis
  proof (cases "nodeAt fileElement (butlast q)")
    case None
    with assms False show ?thesis by (simp add: nextElementSibling_def)
  next
    case (Some n)
    show ?thesis
    proof (cases n)
      case (Text s)
      with assms False Some show ?thesis by (simp add: nextElementSibling_def)
    next
      case (Element t a cs)
      let ?js = "filter (\<lambda>j. isElement (cs ! j)) [Suc (last q)..<length cs]"
      have e: "(case ?js of [] \<Rightarrow> None | j # js \<Rightarrow> Some (butlast q @ [j])) = Some p"
        using assms False Some Element by (simp add: nextElementSibling_def)
      then obtain j js where f: "?js = j # js" and p: "p = butlast q @ [j]"
        by (cases ?js) simp_all
      have "j \<in> set ?js" unfolding f by simp
      then have j: "j < length cs" "isElement (cs ! j)" by simp_all
      have "nodeAt fileElement p = Some (cs ! j)"
        unfolding p using Some Element j(1) by (simp add: nodeAt_append)
      with j(2) show ?thesis by (cases "cs ! j") simp_all
    qed
  qed
qed

lemma findLineElement_Element:
  assumes "findLineElement fileElement decoration = Inr p"
  shows "\<exists>t a cs. nodeAt fileElement p = Some (Element t a cs)"
proof -
  let ?ls = "querySelectorAll fileElement (decimal (startLine decoration + 1))"
  have one: "length ?ls = 1"
    using assms by (cases "length ?ls = 1") (simp_all add: findLineElement_def Let_def)
  have "nextElementSibling fileElement (fst (hd ?ls)) = Some p"
    using assms one
    by (cases "nextElementSibling fileElement (fst (hd ?ls))")
       (simp_all add: findLineElement_def Let_def)
  then show ?thesis by (rule nextElementSibling_Element)
qed

lemma assignStyle_Element:
  "\<exists>a'. assignStyle css property v (Element t a cs) = Element t a' cs"
  by (cases "css property v (map_of a ''style'')") simp_all

lemma undo_annotation:
  "(removeChild (length cs) \<circ> appendChild x) (Element t a cs) = Element t a cs"
  by simp

lemma undo_both:
  "(removeChild (length cs) \<circ> assignStyle css property [] \<circ> appendChild x \<circ>
      assignStyle css property v) (Element t a cs) =
   assignStyle css property [] (assignStyle css property v (Element t a cs))"
proof -
  obtain a' where a': "assignStyle css property v (Element t a cs) = Element t a' cs"
    using assignStyle_Element by blast
  obtain a'' where a'': "assignStyle css property [] (Element t a' (cs @ [x])) = Element t a'' (cs @ [x])"
    using assignStyle_Element by blast
  have same: "assignStyle css property [] (Element t a' cs) = Element t a'' cs"
    using a'' by (cases "css property [] (map_of a' ''style'')") simp_all
  show ?thesis by (simp add: a' a'' same del: assignStyle.simps)
qed

text \<open>
  C5, amended. Applying a decoration and then invoking the returned disposable removes
  the annotation that was appended and leaves the host subtree as it was, except for
  the \<open>style\<close> attribute of the line element: when the decoration gave a background
  colour, that attribute is what assigning the colour and then \<open>null\<close> to
  \<open>style.backgroundColor\<close> leaves of it; the earlier background colour is not put
  back. The subtree is equal to its state before the decoration was applied when the
  decoration gives no background colour.
\<close>

theorem applyDecoration_then_dispose:
  assumes "applyDecoration css fileElement decoration = (Inr disposables, fileElement')"
  shows "\<exists>lineElement.
           findLineElement fileElement decoration = Inr lineElement \<and>
           mergeDisposables css disposables fileElement' =
             (if truthy (backgroundColor decoration)
              then backgroundAssignedAndCleared css (orNull (backgroundColor decoration))
                     fileElement lineElement
              else fileElement)"
proof -
  from assms obtain p where p: "findLineElement fileElement decoration = Inr p"
    by (cases "findLineElement fileElement decoration") (simp_all add: applyDecoration_def)
  from findLineElement_Element [OF p] obtain t a cs where
    n: "nodeAt fileElement p = Some (Element t a cs)" by blast
  let ?v = "orNull (backgroundColor decoration)"
  let ?set = "assignStyle css ''background-color'' ?v"
  let ?clear = "assignStyle css ''background-color'' []"
  obtain a' where a': "?set (Element t a cs) = Element t a' cs"
    using assignStyle_Element by blast
  have k: "childCount (updateAt p ?set fileElement) p = length cs"
    "childCount fileElement p = length cs"
    using n a' by (simp_all add: childCount_def nodeAt_updateAt del: assignStyle.simps)
  have "mergeDisposables css disposables fileElement' =
          (if truthy (backgroundColor decoration)
           then backgroundAssignedAndCleared css ?v fileElement p else fileElement)"
  proof (cases "truthy (backgroundColor decoration)")
    case True
    show ?thesis
    proof (cases "after decoration")
      case None
      with True p assms have d: "disposables = [ResetBackground p]"
        "fileElement' = updateAt p ?set fileElement"
        by (auto simp: applyDecoration_def)
      have "mergeDisposables css disposables fileElement' = updateAt p (?clear \<circ> ?set) fileElement"
        unfolding d by (simp add: mergeDisposables_def updateAt_updateAt)
      also have "\<dots> = updateAt p (\<lambda>e. ?clear (?set e)) fileElement"
        by (rule updateAt_cong_at) simp
      finally show ?thesis using True by (simp add: backgroundAssignedAndCleared_def)
    next
      case (Some x)
      with True p assms k have d: "disposables = [ResetBackground p, RemoveAnnotation p (length cs)]"
        "fileElement' = updateAt p (appendChild (annotationFor css x)) (updateAt p ?set fileElement)"
        by (auto simp: applyDecoration_def)
      have "mergeDisposables css disposables fileElement' =
              updateAt p (removeChild (length cs) \<circ> ?clear \<circ>
                          appendChild (annotationFor css x) \<circ> ?set) fileElement"
        unfolding d by (simp add: mergeDisposables_def updateAt_updateAt comp_assoc)
      also have "\<dots> = updateAt p (\<lambda>e. ?clear (?set e)) fileElement"
      proof (rule updateAt_cong_at)
        fix m assume "nodeAt fileElement p = Some m"
        with n have m: "m = Element t a cs" by simp
        show "(removeChild (length cs) \<circ> ?clear \<circ> appendChild (annotationFor css x) \<circ> ?set) m =
                ?clear (?set m)"
          unfolding m by (rule undo_both)
      qed
      finally show ?thesis using True by (simp add: backgroundAssignedAndCleared_def)
    qed
  next
    case False
    show ?thesis
    proof (cases "after decoration")
      case None
      with False p assms have d: "disposables = []" "fileElement' = fileElement"
        by (auto simp: applyDecoration_def)
      show ?thesis unfolding d using False by (simp add: mergeDisposables_def)
    next
      case (Some x)
      with False p assms k have d: "disposables = [RemoveAnnotation p (length cs)]"
        "fileElement' = updateAt p (appendChild (annotationFor css x)) fileElement"
        by (auto simp: applyDecoration_def)
      have "mergeDisposables css disposables fileElement' =
              updateAt p (removeChild (length cs) \<circ> appendChild (annotationFor css x)) fileElement"
        unfolding d by (simp add: mergeDisposables_def updateAt_updateAt)
      also have "\<dots> = updateAt p (\<lambda>n. n) fileElement"
        by (rule updateAt_cong_at) (simp add: n)
      finally show ?thesis using False by (simp add: updateAt_id)
    qed
  qed
  with p show ?thesis by blast
qed

theorem applyDecoration_then_dispose_witness:
  "applyDecoration exampleCss hostRed decoYellow =
     (Inr [ResetBackground [0, 1], RemoveAnnotation [0, 1] 1],
      snd (applyDecoration exampleCss hostRed decoYellow)) \<and>
   mergeDisposables exampleCss [ResetBackground [0, 1], RemoveAnnotation [0, 1] 1]
     (snd (applyDecoration exampleCss hostRed decoYellow)) =
     backgroundAssignedAndCleared exampleCss ''yellow'' hostRed [0, 1] \<and>
   applyDecoration exampleCss hostPlain (decoYellow\<lparr>backgroundColor := None\<rparr>) =
     (Inr [RemoveAnnotation [0, 1] 1],
      snd (applyDecoration exampleCss hostPlain (decoYellow\<lparr>backgroundColor := None\<rparr>))) \<and>
   snd (applyDecoration exampleCss hostPlain (decoYellow\<lparr>backgroundColor := None\<rparr>)) \<noteq> hostPlain \<and>
   mergeDisposables exampleCss [RemoveAnnotation [0, 1] 1]
     (snd (applyDecoration exampleCss hostPlain (decoYellow\<lparr>backgroundColor := None\<rparr>))) =
     hostPlain"
proof -
  let ?plain = "decoYellow\<lparr>backgroundColor := None\<rparr>"
  have f1: "fst (applyDecoration exampleCss hostRed decoYellow) =
              Inr [ResetBackground [0, 1], RemoveAnnotation [0, 1] 1]"
    by code_simp
  have a1: "applyDecoration exampleCss hostRed decoYellow =
     (Inr [ResetBackground [0, 1], RemoveAnnotation [0, 1] 1],
      snd (applyDecoration exampleCss hostRed decoYellow))"
    using f1 by (metis prod.collapse)
  have f2: "fst (applyDecoration exampleCss hostPlain ?plain) = Inr [RemoveAnnotation [0, 1] 1]"
    by code_simp
  have a2: "applyDecoration exampleCss hostPlain ?plain =
     (Inr [RemoveAnnotation [0, 1] 1], snd (applyDecoration exampleCss hostPlain ?plain))"
    using f2 by (metis prod.collapse)
  have l1: "findLineElement hostRed decoYellow = Inr [0, 1]" by code_simp
  have t1: "truthy (backgroundColor decoYellow)" "orNull (backgroundColor decoYellow) = ''yellow''"
    by code_simp+
  have t2: "\<not> truthy (backgroundColor ?plain)" by code_simp
  have n2: "snd (applyDecoration exampleCss hostPlain ?plain) \<noteq> hostPlain" by code_simp
  from applyDecoration_then_dispose [OF a1] l1 t1
  have r1: "mergeDisposables exampleCss [ResetBackground [0, 1], RemoveAnnotation [0, 1] 1]
     (snd (applyDecoration exampleCss hostRed decoYellow)) =
     backgroundAssignedAndCleared exampleCss ''yellow'' hostRed [0, 1]"
    by auto
  from applyDecoration_then_dispose [OF a2] t2
  have r2: "mergeDisposables exampleCss [RemoveAnnotation [0, 1] 1]
     (snd (applyDecoration exampleCss hostPlain ?plain)) = hostPlain"
    by auto
  from a1 r1 a2 n2 r2 show ?thesis by (intro conjI)
qed

text \<open>
  C5 as stated fails. The line element starts out with a red inline background, the
  decoration makes it yellow, and after the disposable has run its \<open>style\<close> attribute
  is empty: the red is not put back. A line element that had no \<open>style\<close> attribute
  has an empty one afterwards. In both cases the subtree differs from the one the
  decoration was applied to.
\<close>

theorem dispose_clears_prior_background:
  "fst (applyDecoration exampleCss hostRed decoYellow) =
     Inr [ResetBackground [0, 1], RemoveAnnotation [0, 1] 1] \<and>
   nodeAt hostRed [0, 1] =
     Some (Element ''td'' [(''class'', ''blob-code''), (''style'', ''background-color: red;'')]
             [Text ''package mux'']) \<and>
   nodeAt (snd (applyDecoration exampleCss hostRed decoYellow)) [0, 1] =
     Some (Element ''td'' [(''class'', ''blob-code''), (''style'', ''background-color: yellow;'')]
             [Text ''package mux'',
              Element ''a'' [(''href'', ''https://sourcegraph.com/refs''), (''style'', ''color: gray;'')]
                [Element ''span'' [] [Text ''2 references'']]]) \<and>
   nodeAt (mergeDisposables exampleCss [ResetBackground [0, 1], RemoveAnnotation [0, 1] 1]
             (snd (applyDecoration exampleCss hostRed decoYellow))) [0, 1] =
     Some (Element ''td'' [(''class'', ''blob-code''), (''style'', [])] [Text ''package mux'']) \<and>
   mergeDisposables exampleCss [ResetBackground [0, 1], RemoveAnnotation [0, 1] 1]
     (snd (applyDecoration exampleCss hostRed decoYellow)) \<noteq> hostRed \<and>
   fst (applyDecoration exampleCss hostPlain decoYellow) =
     Inr [ResetBackground [0, 1], RemoveAnnotation [0, 1] 1] \<and>
   nodeAt hostPlain [0, 1] =
     Some (Element ''td'' [(''class'', ''blob-code'')] [Text ''package mux'']) \<and>
   nodeAt (mergeDisposables exampleCss [ResetBackground [0, 1], RemoveAnnotation [0, 1] 1]
             (snd (applyDecoration exampleCss hostPlain decoYellow))) [0, 1] =
     Some (Element ''td'' [(''class'', ''blob-code''), (''style'', [])] [Text ''package mux'']) \<and>
   mergeDisposables exampleCss [ResetBackground [0, 1], RemoveAnnotation [0, 1] 1]
     (snd (applyDecoration exampleCss hostPlain decoYellow)) \<noteq> hostPlain"
  by code_simp

text \<open>
  C6. When the number of \<open>td\<close> elements whose \<open>data-line-number\<close> is the line of the
  decoration plus one is zero or greater than one, \<open>applyDecoration\<close> throws an error
  whose message gives that number of matches and the expected one, and the host subtree
  is unchanged.
\<close>

theorem applyDecoration_not_unique:
  assumes "length (querySelectorAll fileElement (decimal (startLine decoration + 1))) = 0 \<or>
           1 < length (querySelectorAll fileElement (decimal (startLine decoration + 1)))"
  shows "applyDecoration css fileElement decoration =
           (Inl (''Line number '' @ decimal (startLine decoration + 1) @ '' matched '' @
                 decimal (length (querySelectorAll fileElement (decimal (startLine decoration + 1)))) @
                 '' elements (expected 1)''),
            fileElement)"
proof -
  from assms have "length (querySelectorAll fileElement (decimal (startLine decoration + 1))) \<noteq> 1"
    by auto
  then show ?thesis
    by (simp add: applyDecoration_def findLineElement_def Let_def)
qed

theorem applyDecoration_not_unique_witness:
  "length (querySelectorAll hostRed (decimal (startLine (decoYellow\<lparr>startLine := 11\<rparr>) + 1))) = 0 \<and>
   applyDecoration exampleCss hostRed (decoYellow\<lparr>startLine := 11\<rparr>) =
     (Inl ''Line number 12 matched 0 elements (expected 1)'', hostRed) \<and>
   1 < length (querySelectorAll hostTwice (decimal (startLine decoYellow + 1))) \<and>
   applyDecoration exampleCss hostTwice decoYellow =
     (Inl ''Line number 1 matched 2 elements (expected 1)'', hostTwice)"
proof -
  have z: "length (querySelectorAll hostRed (decimal (startLine (decoYellow\<lparr>startLine := 11\<rparr>) + 1))) = 0"
    by code_simp
  have t: "length (querySelectorAll hostTwice (decimal (startLine decoYellow + 1))) = 2"
    by code_simp
  have d: "decimal (startLine (decoYellow\<lparr>startLine := 11\<rparr>) + 1) = ''12''"
    "decimal (startLine decoYellow + 1) = ''1''" "decimal 0 = ''0''" "decimal 2 = ''2''"
    by code_simp+
  from applyDecoration_not_unique [of hostRed "decoYellow\<lparr>startLine := 11\<rparr>" exampleCss]
    applyDecoration_not_unique [of hostTwice decoYellow exampleCss] z t d
  show ?thesis by simp
qed

end
